theory Spec2Isabelle
  imports Complex_Main
begin

section \<open>Subspace aligners of skada/\_subspace.py\<close>

text \<open>
  A shallow embedding of \<^verbatim>\<open>src/skada/_subspace.py\<close>: the Subspace Alignment,
  Transfer Component Analysis (TCA) and Transfer Joint Matching (TJM) adapters and the
  unfinished Conditional Transferable Components adapter.

  A numpy array of shape (n, d) is a list of n rows, each a list of d numbers; float64
  is modelled by \<^typ>\<open>real\<close>, so rounding, NaN and Inf are outside the model. The
  numerical solvers of numpy, scipy and scikit-learn (PCA's decomposition, the linear
  solve, the eigendecompositions) are parameters of the functions that call them.
  Every exception is a value of \<open>error\<close>, and a function that can raise returns
  \<open>error + 'a\<close> with \<open>Inl\<close> for the exception.
\<close>

subsection \<open>Arrays and errors\<close>

type_synonym vec = "real list"

type_synonym matrix = "real list list"

datatype error =
    ValueError
  | InvalidParameterError
  | ZeroDivisionError
  | IndexError
  | LinAlgError
  | UnboundLocalError
  | TypeError
  | NameError
  | ImportError

text \<open>\<open>X.shape[1]\<close>. A list of rows does not record the column count of a matrix
  with no rows; the places that need it there take it as an argument.\<close>

definition ncols :: "matrix \<Rightarrow> nat" where
  "ncols M = (case M of [] \<Rightarrow> 0 | r # _ \<Rightarrow> length r)"

definition dot :: "vec \<Rightarrow> vec \<Rightarrow> real" where
  "dot u v = sum_list (map2 (*) u v)"

definition column :: "matrix \<Rightarrow> nat \<Rightarrow> vec" where
  "column M j = map (\<lambda>r. r ! j) M"

text \<open>\<open>M.T\<close> for a matrix with \<open>nc\<close> columns.\<close>

definition mT :: "nat \<Rightarrow> matrix \<Rightarrow> matrix" where
  "mT nc M = map (column M) [0..<nc]"

text \<open>\<open>A @ B\<close> and \<open>np.dot(A, B)\<close> on two-dimensional arrays: every row of
  \<open>A\<close> times \<open>B\<close>.\<close>

definition vecmat :: "vec \<Rightarrow> matrix \<Rightarrow> vec" where
  "vecmat r B = map (\<lambda>j. dot r (column B j)) [0..<ncols B]"

definition matmul :: "matrix \<Rightarrow> matrix \<Rightarrow> matrix" where
  "matmul A B = map (\<lambda>r. vecmat r B) A"

definition madd :: "matrix \<Rightarrow> matrix \<Rightarrow> matrix" where
  "madd A B = map2 (map2 (+)) A B"

definition msub :: "matrix \<Rightarrow> matrix \<Rightarrow> matrix" where
  "msub A B = map2 (map2 (-)) A B"

definition smul :: "real \<Rightarrow> matrix \<Rightarrow> matrix" where
  "smul c M = map (map ((*) c)) M"

definition ones :: "nat \<Rightarrow> nat \<Rightarrow> matrix" where
  "ones r c = replicate r (replicate c 1)"

definition eye :: "nat \<Rightarrow> matrix" where
  "eye n = map (\<lambda>i. map (\<lambda>j. if i = j then 1 else 0) [0..<n]) [0..<n]"

definition diag :: "vec \<Rightarrow> matrix" where
  "diag g = map (\<lambda>i. map (\<lambda>j. if i = j then g ! i else 0) [0..<length g]) [0..<length g]"

definition trace :: "matrix \<Rightarrow> real" where
  "trace M = sum_list (map (\<lambda>i. M ! i ! i) [0..<min (length M) (ncols M)])"

text \<open>\<open>np.linalg.norm(A, axis=1)\<close>: the L2 norm of each row.\<close>

definition norm2 :: "vec \<Rightarrow> real" where
  "norm2 v = sqrt (sum_list (map (\<lambda>x. x * x) v))"

text \<open>\<open>np.linalg.norm(M)\<close> and \<open>np.linalg.norm(M, ord="fro")\<close>.\<close>

definition fro_norm :: "matrix \<Rightarrow> real" where
  "fro_norm M = sqrt (sum_list (map (\<lambda>r. sum_list (map (\<lambda>x. x * x) r)) M))"

text \<open>\<open>np.concatenate((A, B), axis=1)\<close>.\<close>

definition hstack :: "matrix \<Rightarrow> matrix \<Rightarrow> matrix" where
  "hstack A B = map2 (@) A B"

text \<open>\<open>np.block([[A, B], [C, D]])\<close>.\<close>

definition block :: "matrix \<Rightarrow> matrix \<Rightarrow> matrix \<Rightarrow> matrix \<Rightarrow> matrix" where
  "block A B C D = hstack A B @ hstack C D"

text \<open>\<open>A[mask]\<close>: the rows of \<open>A\<close> at which the boolean mask holds.\<close>

definition select_rows :: "'a list \<Rightarrow> bool list \<Rightarrow> 'a list" where
  "select_rows A msk = map fst (filter snd (zip A msk))"

text \<open>\<open>A[:, indices]\<close>.\<close>

definition select_columns :: "matrix \<Rightarrow> nat list \<Rightarrow> matrix" where
  "select_columns A indices = map (\<lambda>r. map (\<lambda>j. r ! j) indices) A"

text \<open>\<open>np.argsort(keys)\<close>: the indices in ascending order of their keys. numpy
  promises no order among equal keys. The model has to fix one: it sorts by insertion,
  as numpy does on short arrays. What is proved of the selections built on it uses the
  ascending order of the keys only, never the order of equal keys.\<close>

definition argsort :: "vec \<Rightarrow> nat list" where
  "argsort keys = sort_key (\<lambda>i. keys ! i) [0..<length keys]"

subsection \<open>Domain partition helpers (skada.utils)\<close>

text \<open>Modelled from the spec: \<open>extract_source_indices\<close> of skada.utils is not among
  the sources. It "exposes a boolean source-membership mask over rows"; the domain
  labels "partition rows into exactly two logical groups". The mask is taken to be
  \<open>sample_domain >= 0\<close>, the label convention of the library.\<close>

definition extract_source_indices :: "int list \<Rightarrow> bool list" where
  "extract_source_indices sample_domain = map (\<lambda>d. 0 \<le> d) sample_domain"

text \<open>Modelled from the spec: \<open>check_X_domain\<close> of skada.utils is not among the
  sources. The rows of X are "tagged by a parallel domain-label vector of length n":
  the check passes X and the labels on when they have the same length.\<close>

definition check_X_domain :: "'a list \<Rightarrow> int list \<Rightarrow> error + ('a list \<times> int list)" where
  "check_X_domain X sample_domain =
     (if length X = length sample_domain then Inr (X, sample_domain) else Inl ValueError)"

text \<open>Modelled from the spec: \<open>source_target_split\<close> of skada.utils is not among the
  sources. It "splits a combined matrix into source/target row blocks by domain
  label", each block keeping the order of its rows.\<close>

definition source_target_split :: "'a list \<Rightarrow> int list \<Rightarrow> 'a list \<times> 'a list" where
  "source_target_split X sample_domain =
     (select_rows X (extract_source_indices sample_domain),
      select_rows X (map Not (extract_source_indices sample_domain)))"

text \<open>Modelled from the spec: \<open>source_target_merge\<close> of skada.utils is not among the
  sources. It "re-merges source/target outputs in original row order": the next source
  row goes to the next source position, the next target row to the next target
  position; blocks that do not fit the labels are refused.\<close>

fun source_target_merge :: "'a list \<Rightarrow> 'a list \<Rightarrow> int list \<Rightarrow> error + 'a list" where
  "source_target_merge X_source X_target [] =
     (if X_source = [] \<and> X_target = [] then Inr [] else Inl ValueError)"
| "source_target_merge X_source X_target (d # ds) =
     (if 0 \<le> d then
        (case X_source of
           [] \<Rightarrow> Inl ValueError
         | x # xs \<Rightarrow>
             (case source_target_merge xs X_target ds of
                Inl e \<Rightarrow> Inl e
              | Inr rest \<Rightarrow> Inr (x # rest)))
      else
        (case X_target of
           [] \<Rightarrow> Inl ValueError
         | x # xs \<Rightarrow>
             (case source_target_merge X_source xs ds of
                Inl e \<Rightarrow> Inl e
              | Inr rest \<Rightarrow> Inr (x # rest))))"

subsection \<open>Kernel matrices\<close>

text \<open>\<open>pairwise_kernels(X, Y, metric=self.kernel)\<close>: the kernel of every row of X
  with every row of Y. The kernel itself is a parameter; nothing is assumed of it, not
  even symmetry. \<open>pairwise_kernels(X, metric=...)\<close> is \<open>pairwise_kernels X X\<close>.\<close>

definition pairwise_kernels :: "(vec \<Rightarrow> vec \<Rightarrow> real) \<Rightarrow> matrix \<Rightarrow> matrix \<Rightarrow> matrix" where
  "pairwise_kernels ker X Y = map (\<lambda>x. map (\<lambda>y. ker x y) Y) X"

text \<open>\<open>TransferJointMatchingAdapter._get_kernel_matrix\<close>; the fit of
  \<open>TransferComponentAnalysisAdapter\<close> builds its K by the same four lines.\<close>

definition get_kernel_matrix :: "(vec \<Rightarrow> vec \<Rightarrow> real) \<Rightarrow> matrix \<Rightarrow> matrix \<Rightarrow> matrix" where
  "get_kernel_matrix ker X_source X_target =
     (let Kss = pairwise_kernels ker X_source X_source;
          Ktt = pairwise_kernels ker X_target X_target;
          Kst = pairwise_kernels ker X_source X_target;
          K = block Kss Kst (mT (length X_target) Kst) Ktt
      in K)"

text \<open>\<open>_get_mmd_matrix\<close>, and the same lines for L in the fit of TCA. \<open>ns\<close> and
  \<open>nt\<close> are Python integers, so \<open>1 / ns**2\<close> raises for an empty block.\<close>

definition get_mmd_matrix :: "nat \<Rightarrow> nat \<Rightarrow> error + matrix" where
  "get_mmd_matrix ns nt =
     (if ns = 0 \<or> nt = 0 then Inl ZeroDivisionError
      else
        (let Mss = smul (1 / (real ns)\<^sup>2) (ones ns ns);
             Mtt = smul (1 / (real nt)\<^sup>2) (ones nt nt);
             Mst = smul (- (1 / (real ns * real nt))) (ones ns nt);
             M = block Mss Mst (mT nt Mst) Mtt
         in Inr M))"

subsection \<open>SubspaceAlignmentAdapter\<close>

text \<open>An attribute whose Python name ends in an underscore is a record field named
  after its class: \<open>pca_mean\<close> and \<open>pca_components\<close> for \<open>mean_\<close> and
  \<open>components_\<close>, \<open>sa_M\<close> for \<open>M_\<close>, \<open>tca_K\<close> for \<open>K_\<close>, \<open>tjm_A\<close> for
  \<open>A_\<close>, and so on.

  The fitted \<open>PCA\<close> object of scikit-learn, as far as the adapter reads it.\<close>

record pca =
  pca_mean :: vec
  pca_components :: matrix

text \<open>\<open>PCA.transform\<close> of scikit-learn: every row is centred by the mean and
  multiplied by the transpose of the components. Its input check refuses an array
  with no rows (at least one sample is required).\<close>

definition pca_transform_row :: "pca \<Rightarrow> vec \<Rightarrow> vec" where
  "pca_transform_row p x = map (\<lambda>c. dot (map2 (-) x (pca_mean p)) c) (pca_components p)"

definition pca_transform :: "pca \<Rightarrow> matrix \<Rightarrow> error + matrix" where
  "pca_transform p X =
     (if length X = 0 then Inl ValueError else Inr (map (pca_transform_row p) X))"

text \<open>Modelled from the spec: \<open>PCA(n_components).fit\<close> of scikit-learn is not among
  the sources. The basis extraction is run "independently on X_source and on X_target",
  and a fit "with n_components exceeding min(n_samples, n_features) must fail with an
  invalid-configuration error": the samples and features are those of the block the
  extraction is given. A block with no rows is refused before that (the aligners
  "require nonzero rows in both groups at fit time"). The decomposition itself is the
  parameter \<open>decompose\<close>.\<close>

definition PCA_fit :: "(nat \<Rightarrow> matrix \<Rightarrow> pca) \<Rightarrow> nat \<Rightarrow> matrix \<Rightarrow> error + pca" where
  "PCA_fit decompose n_components X =
     (if length X = 0 then Inl ValueError
      else if min (length X) (ncols X) < n_components then Inl InvalidParameterError
      else Inr (decompose n_components X))"

record sa_state =
  sa_pca_source :: pca
  sa_pca_target :: pca
  sa_n_components :: nat
  sa_M :: matrix

text \<open>\<open>SubspaceAlignmentAdapter.fit\<close>; \<open>n_components\<close> is \<open>None\<close> or a number.\<close>

definition sa_fit ::
  "(nat \<Rightarrow> matrix \<Rightarrow> pca) \<Rightarrow> nat option \<Rightarrow> matrix \<Rightarrow> int list \<Rightarrow> error + sa_state" where
  "sa_fit decompose n_components X0 sample_domain0 =
     (case check_X_domain X0 sample_domain0 of
        Inl e \<Rightarrow> Inl e
      | Inr (X, sample_domain) \<Rightarrow>
          (let (X_source, X_target) = source_target_split X sample_domain;
               n_comp = (case n_components of
                           None \<Rightarrow> min (length X) (ncols X)
                         | Some k \<Rightarrow> k)
           in case PCA_fit decompose n_comp X_source of
                Inl e \<Rightarrow> Inl e
              | Inr ps \<Rightarrow>
                  (case PCA_fit decompose n_comp X_target of
                     Inl e \<Rightarrow> Inl e
                   | Inr pt \<Rightarrow>
                       Inr \<lparr>sa_pca_source = ps, sa_pca_target = pt, sa_n_components = n_comp,
                            sa_M = matmul (pca_components ps)
                                   (mT (ncols (pca_components pt)) (pca_components pt))\<rparr>)))"

text \<open>A block of \<open>adapt\<close> with its shape: the rows and the number of columns. A
  list of rows alone loses the number of columns of a block with no rows.\<close>

record array2 =
  array_rows :: matrix
  array_ncols :: nat

text \<open>\<open>SubspaceAlignmentAdapter.adapt\<close>, lines 103 to 106: the two blocks after the
  guarded transforms, before they are merged. The product with \<open>M_\<close> has the
  columns of \<open>M_\<close>.\<close>

definition sa_adapt_blocks :: "sa_state \<Rightarrow> array2 \<Rightarrow> array2 \<Rightarrow> error + (array2 \<times> array2)" where
  "sa_adapt_blocks st X_source X_target =
     (case (if length (array_rows X_source) \<noteq> 0
            then (case pca_transform (sa_pca_source st) (array_rows X_source) of
                    Inl e \<Rightarrow> Inl e
                  | Inr T \<Rightarrow> Inr \<lparr>array_rows = matmul T (sa_M st),
                                  array_ncols = ncols (sa_M st)\<rparr>)
            else Inr X_source) of
        Inl e \<Rightarrow> Inl e
      | Inr X_source' \<Rightarrow>
          (case (if length (array_rows X_target) \<noteq> 0
                 then (case pca_transform (sa_pca_target st) (array_rows X_target) of
                         Inl e \<Rightarrow> Inl e
                       | Inr T \<Rightarrow> Inr \<lparr>array_rows = matmul T (sa_M st),
                                       array_ncols = ncols (sa_M st)\<rparr>)
                 else Inr X_target) of
             Inl e \<Rightarrow> Inl e
           | Inr X_target' \<Rightarrow> Inr (X_source', X_target')))"

text \<open>\<open>SubspaceAlignmentAdapter.adapt\<close>. Both blocks of the split have the columns
  of X.\<close>

definition sa_adapt :: "sa_state \<Rightarrow> matrix \<Rightarrow> int list \<Rightarrow> error + matrix" where
  "sa_adapt st X0 sample_domain0 =
     (case check_X_domain X0 sample_domain0 of
        Inl e \<Rightarrow> Inl e
      | Inr (X, sample_domain) \<Rightarrow>
          (let (X_source, X_target) = source_target_split X sample_domain
           in case sa_adapt_blocks st
                     \<lparr>array_rows = X_source, array_ncols = ncols X\<rparr>
                     \<lparr>array_rows = X_target, array_ncols = ncols X\<rparr> of
                Inl e \<Rightarrow> Inl e
              | Inr (X_source', X_target') \<Rightarrow>
                  source_target_merge (array_rows X_source') (array_rows X_target')
                    sample_domain))"

subsection \<open>TransferComponentAnalysisAdapter\<close>

record tca_state =
  tca_X_source :: matrix
  tca_X_target :: matrix
  tca_K :: matrix
  tca_eigvects :: matrix

text \<open>Line 294: \<open>np.argsort(np.abs(eigvals))[::-1][:n_components]\<close>.\<close>

definition selected_components :: "vec \<Rightarrow> nat \<Rightarrow> nat list" where
  "selected_components eigvals n_components =
     take n_components (rev (argsort (map abs eigvals)))"

text \<open>\<open>TransferComponentAnalysisAdapter.fit\<close>. \<open>solve\<close> is \<open>np.linalg.solve\<close> and
  \<open>eigh\<close> is \<open>np.linalg.eigh\<close>. The matrix L is built by the lines of
  \<open>get_mmd_matrix\<close>.\<close>

definition tca_fit ::
  "(vec \<Rightarrow> vec \<Rightarrow> real) \<Rightarrow> real \<Rightarrow> nat option \<Rightarrow>
   (matrix \<Rightarrow> matrix \<Rightarrow> error + matrix) \<Rightarrow> (matrix \<Rightarrow> error + vec \<times> matrix) \<Rightarrow>
   matrix \<Rightarrow> int list \<Rightarrow> error + tca_state" where
  "tca_fit ker mu n_components solve eigh X0 sample_domain0 =
     (case check_X_domain X0 sample_domain0 of
        Inl e \<Rightarrow> Inl e
      | Inr (X, sample_domain) \<Rightarrow>
          (let (X_source, X_target) = source_target_split X sample_domain;
               Kss = pairwise_kernels ker X_source X_source;
               Ktt = pairwise_kernels ker X_target X_target;
               Kst = pairwise_kernels ker X_source X_target;
               K = block Kss Kst (mT (length X_target) Kst) Ktt;
               ns = length X_source;
               nt = length X_target
           in case get_mmd_matrix ns nt of
                Inl e \<Rightarrow> Inl e
              | Inr L \<Rightarrow>
                  (let H = msub (eye (ns + nt))
                             (smul (1 / real (ns + nt)) (ones (ns + nt) (ns + nt)));
                       A = madd (eye (ns + nt)) (matmul (matmul (smul mu K) L) K);
                       B = matmul (matmul K H) K
                   in case solve A B of
                        Inl e \<Rightarrow> Inl e
                      | Inr solution \<Rightarrow>
                          (case eigh solution of
                             Inl e \<Rightarrow> Inl e
                           | Inr (eigvals, eigvects) \<Rightarrow>
                               (let n_comp = (case n_components of
                                                None \<Rightarrow> min (length X) (ncols X)
                                              | Some k \<Rightarrow> k);
                                    selected = selected_components eigvals n_comp
                                in Inr \<lparr>tca_X_source = X_source, tca_X_target = X_target,
                                        tca_K = K,
                                        tca_eigvects = select_columns eigvects selected\<rparr>)))))"

text \<open>\<open>TransferComponentAnalysisAdapter.adapt\<close>.\<close>

definition tca_adapt ::
  "(vec \<Rightarrow> vec \<Rightarrow> real) \<Rightarrow> tca_state \<Rightarrow> matrix \<Rightarrow> int list \<Rightarrow> error + matrix" where
  "tca_adapt ker st X0 sample_domain0 =
     (case check_X_domain X0 sample_domain0 of
        Inl e \<Rightarrow> Inl e
      | Inr (X, sample_domain) \<Rightarrow>
          (let (X_source, X_target) = source_target_split X sample_domain
           in if X_source = tca_X_source st \<and> X_target = tca_X_target st
              then Inr (take (length X) (matmul (tca_K st) (tca_eigvects st)))
              else
                (let Ks = pairwise_kernels ker X (tca_X_source st);
                     Kt = pairwise_kernels ker X (tca_X_target st);
                     K = hstack Ks Kt
                 in Inr (take (length X) (matmul K (tca_eigvects st))))))"

subsection \<open>TransferJointMatchingAdapter\<close>

record tjm_state =
  tjm_X_source :: matrix
  tjm_X_target :: matrix
  tjm_A :: matrix

definition EPS_eigval :: real where
  "EPS_eigval = 1 / 10 ^ 10"

text \<open>\<open>G[msk] = values\<close>: the values go, in order, to the positions at which the
  mask holds. numpy refuses a mask of another length than G and a number of values
  other than the number of positions.\<close>

fun masked_assign :: "'a list \<Rightarrow> bool list \<Rightarrow> 'a list \<Rightarrow> error + 'a list" where
  "masked_assign [] [] vs = (if vs = [] then Inr [] else Inl ValueError)"
| "masked_assign (g # gs) (m # ms) vs =
     (if m then
        (case vs of
           [] \<Rightarrow> Inl ValueError
         | v # vs' \<Rightarrow>
             (case masked_assign gs ms vs' of
                Inl e \<Rightarrow> Inl e
              | Inr rest \<Rightarrow> Inr (v # rest)))
      else
        (case masked_assign gs ms vs of
           Inl e \<Rightarrow> Inl e
         | Inr rest \<Rightarrow> Inr (g # rest)))"
| "masked_assign _ _ _ = Inl IndexError"

text \<open>\<open>G[msk] = v\<close> for one number \<open>v\<close>.\<close>

definition masked_fill :: "'a list \<Rightarrow> bool list \<Rightarrow> 'a \<Rightarrow> error + 'a list" where
  "masked_fill G msk v =
     (if length G = length msk then Inr (map2 (\<lambda>g m. if m then v else g) G msk)
      else Inl IndexError)"

text \<open>Lines 558 to 561, the update of G before \<open>np.diag\<close> makes a matrix of it.\<close>

definition update_G :: "nat \<Rightarrow> matrix \<Rightarrow> bool list \<Rightarrow> error + vec" where
  "update_G n A source_mask =
     (let A_norms = map norm2 A;
          G = replicate n 0;
          nonzero = map (\<lambda>a. a \<noteq> 0) A_norms
      in case masked_assign G nonzero
                (map (\<lambda>a. 1 / (2 * a + EPS_eigval)) (select_rows A_norms nonzero)) of
           Inl e \<Rightarrow> Inl e
         | Inr G' \<Rightarrow> masked_fill G' (map Not source_mask) 1)"

text \<open>Line 582, the test that ends the loop.\<close>

definition early_stop :: "real \<Rightarrow> real \<Rightarrow> real \<Rightarrow> bool" where
  "early_stop last_loss loss_total tol =
     (last_loss = 0 \<or> \<bar>last_loss - loss_total\<bar> / last_loss < tol)"

text \<open>One pass through the body of the loop, lines 541 to 569: from the G of the pass
  before to the new A, the new G and \<open>loss_total\<close>. \<open>eigh\<close> is \<open>scipy.linalg.eigh\<close>
  for the generalised problem. The accuracy warning and the printing under
  \<open>verbose\<close> change no variable and are left out.\<close>

definition tjm_iteration ::
  "(matrix \<Rightarrow> matrix \<Rightarrow> error + vec \<times> matrix) \<Rightarrow> matrix \<Rightarrow> matrix \<Rightarrow> matrix \<Rightarrow> nat \<Rightarrow>
   real \<Rightarrow> nat \<Rightarrow> bool list \<Rightarrow> matrix \<Rightarrow> error + (matrix \<times> matrix \<times> real)" where
  "tjm_iteration eigh K M H n tradeoff n_components source_mask G =
     (let B0 = madd (matmul (matmul K M) (mT n K)) (smul tradeoff G);
          C0 = matmul (matmul K H) (mT n K);
          B = madd B0 (smul EPS_eigval (eye n));
          C = madd C0 (smul EPS_eigval (eye n))
      in case eigh B C of
           Inl e \<Rightarrow> Inl e
         | Inr (phi0, A0) \<Rightarrow>
             (let phi = map (\<lambda>p. p + EPS_eigval) phi0;
                  indices = take n_components (argsort phi);
                  A = select_columns A0 indices
              in case update_G n A source_mask of
                   Inl e \<Rightarrow> Inl e
                 | Inr g \<Rightarrow>
                     (let G' = diag g;
                          loss = trace (matmul (matmul (matmul (matmul
                                   (mT (ncols A) A) K) M) K) A);
                          reg = sum_list (map norm2 (select_rows A source_mask))
                                + (fro_norm (select_rows A (map Not source_mask)))\<^sup>2;
                          loss_total = loss + tradeoff * reg
                      in Inr (A, G', loss_total))))"

text \<open>The loop of lines 540 to 585 with \<open>r\<close> passes left. \<open>A\<close> is \<open>None\<close> until
  the first pass has bound it; line 587 reads it after the loop.\<close>

fun tjm_loop ::
  "(matrix \<Rightarrow> error + (matrix \<times> matrix \<times> real)) \<Rightarrow> real \<Rightarrow> nat \<Rightarrow> matrix \<Rightarrow> real \<Rightarrow>
   matrix option \<Rightarrow> error + matrix" where
  "tjm_loop body tol 0 G last_loss A =
     (case A of None \<Rightarrow> Inl UnboundLocalError | Some A' \<Rightarrow> Inr A')"
| "tjm_loop body tol (Suc r) G last_loss A =
     (case body G of
        Inl e \<Rightarrow> Inl e
      | Inr (A', G', loss_total) \<Rightarrow>
          if early_stop last_loss loss_total tol then Inr A'
          else tjm_loop body tol r G' loss_total (Some A'))"

text \<open>\<open>TransferJointMatchingAdapter.fit\<close>.\<close>

definition tjm_fit ::
  "(vec \<Rightarrow> vec \<Rightarrow> real) \<Rightarrow> (matrix \<Rightarrow> matrix \<Rightarrow> error + vec \<times> matrix) \<Rightarrow> nat option \<Rightarrow>
   real \<Rightarrow> nat \<Rightarrow> real \<Rightarrow> matrix \<Rightarrow> int list \<Rightarrow> error + tjm_state" where
  "tjm_fit ker eigh n_components tradeoff max_iter tol X0 sample_domain0 =
     (case check_X_domain X0 sample_domain0 of
        Inl e \<Rightarrow> Inl e
      | Inr (X, sample_domain) \<Rightarrow>
          (let (X_source, X_target) = source_target_split X sample_domain;
               n_comp = (case n_components of
                           None \<Rightarrow> min (length X) (ncols X)
                         | Some k \<Rightarrow> k);
               n = length X;
               source_mask = extract_source_indices sample_domain
           in if n = 0 then Inl ZeroDivisionError
              else
                (let H = msub (eye n) (smul (1 / real n) (ones n n));
                     K = get_kernel_matrix ker X_source X_target
                 in case get_mmd_matrix (length X_source) (length X_target) of
                      Inl e \<Rightarrow> Inl e
                    | Inr M0 \<Rightarrow>
                        (let M = map (map (\<lambda>x. x / fro_norm M0)) M0;
                             G = eye n;
                             last_loss = - 2 * tol
                         in case tjm_loop
                                   (tjm_iteration eigh K M H n tradeoff n_comp source_mask)
                                   tol max_iter G last_loss None of
                              Inl e \<Rightarrow> Inl e
                            | Inr A \<Rightarrow>
                                Inr \<lparr>tjm_X_source = X_source, tjm_X_target = X_target,
                                     tjm_A = A\<rparr>))))"

text \<open>Lines 514 to 539 of \<open>TransferJointMatchingAdapter.fit\<close> on their own: the
  variables that the loop starts from, as \<open>tjm_fit\<close> above binds them.\<close>

record tjm_setup =
  su_X_source :: matrix
  su_X_target :: matrix
  su_n_components :: nat
  su_n :: nat
  su_source_mask :: "bool list"
  su_H :: matrix
  su_K :: matrix
  su_M :: matrix
  su_G :: matrix

definition tjm_fit_setup ::
  "(vec \<Rightarrow> vec \<Rightarrow> real) \<Rightarrow> nat option \<Rightarrow> matrix \<Rightarrow> int list \<Rightarrow> error + tjm_setup" where
  "tjm_fit_setup ker n_components X0 sample_domain0 =
     (case check_X_domain X0 sample_domain0 of
        Inl e \<Rightarrow> Inl e
      | Inr (X, sample_domain) \<Rightarrow>
          (let (X_source, X_target) = source_target_split X sample_domain;
               n_comp = (case n_components of
                           None \<Rightarrow> min (length X) (ncols X)
                         | Some k \<Rightarrow> k);
               n = length X;
               source_mask = extract_source_indices sample_domain
           in if n = 0 then Inl ZeroDivisionError
              else
                (let H = msub (eye n) (smul (1 / real n) (ones n n));
                     K = get_kernel_matrix ker X_source X_target
                 in case get_mmd_matrix (length X_source) (length X_target) of
                      Inl e \<Rightarrow> Inl e
                    | Inr M0 \<Rightarrow>
                        (let M = map (map (\<lambda>x. x / fro_norm M0)) M0;
                             G = eye n
                         in Inr \<lparr>su_X_source = X_source, su_X_target = X_target,
                                 su_n_components = n_comp, su_n = n,
                                 su_source_mask = source_mask, su_H = H, su_K = K,
                                 su_M = M, su_G = G\<rparr>))))"

text \<open>\<open>TransferJointMatchingAdapter.adapt\<close>.\<close>

definition tjm_adapt ::
  "(vec \<Rightarrow> vec \<Rightarrow> real) \<Rightarrow> tjm_state \<Rightarrow> matrix \<Rightarrow> int list \<Rightarrow> error + matrix" where
  "tjm_adapt ker st X0 sample_domain0 =
     (case check_X_domain X0 sample_domain0 of
        Inl e \<Rightarrow> Inl e
      | Inr (X, sample_domain) \<Rightarrow>
          (let (X_source, X_target) = source_target_split X sample_domain
           in if X_source = tjm_X_source st \<and> X_target = tjm_X_target st
              then
                (let K = get_kernel_matrix ker X_source X_target
                 in Inr (matmul K (tjm_A st)))
              else
                (let Ks = pairwise_kernels ker X (tjm_X_source st);
                     Kt = pairwise_kernels ker X (tjm_X_target st);
                     K = hstack Ks Kt
                 in Inr (matmul K (tjm_A st)))))"

subsection \<open>ConditionalTransferableComponentsAdapter\<close>

text \<open>Modelled from the spec: \<open>check_X_y_domain\<close> of skada.utils is not among the
  sources; as \<open>check_X_domain\<close>, with the labels y as a third parallel vector.\<close>

definition check_X_y_domain ::
  "'a list \<Rightarrow> 'b list \<Rightarrow> int list \<Rightarrow> error + ('a list \<times> 'b list \<times> int list)" where
  "check_X_y_domain X y sample_domain =
     (if length X = length sample_domain \<and> length y = length sample_domain
      then Inr (X, y, sample_domain) else Inl ValueError)"

text \<open>The name \<open>torch_minimize\<close> is bound nowhere in the module (no import, no
  definition; a comment at line 733 says it is yet to be taken from another change):
  evaluating it raises \<open>NameError\<close>.\<close>

definition torch_minimize :: "error + 'a" where
  "torch_minimize = Inl NameError"

text \<open>The loop of lines 737 to 746 at pass \<open>i\<close> with \<open>r\<close> passes left, over the
  variables (alpha, W, G, H). Line 744 lacks a comma between its arguments; it is read
  as the calls of lines 742 and 746 are written.\<close>

fun mapping_loop ::
  "nat \<Rightarrow> nat \<Rightarrow> vec \<times> matrix \<times> matrix \<times> matrix \<Rightarrow> error + (vec \<times> matrix \<times> matrix \<times> matrix)"
  where
  "mapping_loop i 0 v = Inr v"
| "mapping_loop i (Suc r) (alpha, W, G, H) =
     (if i mod 3 = 0 then
        (case torch_minimize of
           Inl e \<Rightarrow> Inl e
         | Inr (alpha', _ :: unit) \<Rightarrow> mapping_loop (Suc i) r (alpha', W, G, H))
      else if i mod 3 = 1 then
        (case torch_minimize of
           Inl e \<Rightarrow> Inl e
         | Inr (W', _ :: unit) \<Rightarrow> mapping_loop (Suc i) r (alpha, W', G, H))
      else
        (case torch_minimize of
           Inl e \<Rightarrow> Inl e
         | Inr ((G', H'), _ :: unit) \<Rightarrow> mapping_loop (Suc i) r (alpha, W, G', H')))"

text \<open>\<open>_mapping_optimization(self, X_source, X_target, y_source, d)\<close>.
  \<open>torch_installed\<close> says whether \<open>import torch\<close> succeeds. The nested functions are
  only passed to \<open>torch_minimize\<close> and never run.\<close>

definition mapping_optimization ::
  "bool \<Rightarrow> nat \<Rightarrow> matrix \<Rightarrow> matrix \<Rightarrow> vec \<Rightarrow> nat \<Rightarrow> error + (vec \<times> matrix \<times> matrix \<times> matrix)"
  where
  "mapping_optimization torch_installed max_iter X_source X_target y_source d =
     (if \<not> torch_installed then Inl ImportError
      else
        (let n_s = length X_source;
             n_t = length X_target;
             alpha = replicate n_s 1;
             W = ones d n_s;
             G = ones n_s n_s;
             H = replicate n_t (replicate n_s 0)
         in mapping_loop 0 max_iter (alpha, W, G, H)))"

text \<open>The values a call passes.\<close>

datatype arg = ArgMatrix matrix | ArgVector vec | ArgInt nat

text \<open>A call of \<open>self._mapping_optimization\<close> with the positional arguments
  \<open>args\<close>: Python binds them to the four parameters after \<open>self\<close> and raises
  \<open>TypeError\<close> when a parameter without a default is left unbound.\<close>

definition call_mapping_optimization ::
  "bool \<Rightarrow> nat \<Rightarrow> arg list \<Rightarrow> error + (vec \<times> matrix \<times> matrix \<times> matrix)" where
  "call_mapping_optimization torch_installed max_iter args =
     (case args of
        [ArgMatrix X_source, ArgMatrix X_target, ArgVector y_source, ArgInt d] \<Rightarrow>
          mapping_optimization torch_installed max_iter X_source X_target y_source d
      | _ \<Rightarrow> Inl TypeError)"

text \<open>\<open>ConditionalTransferableComponentsAdapter.fit\<close>, lines 750 to 758; the result is
  what the last statement assigns to \<open>alpha_\<close>, \<open>W_\<close>, \<open>G_\<close> and \<open>H_\<close>.\<close>

definition ctc_fit ::
  "bool \<Rightarrow> nat \<Rightarrow> matrix \<Rightarrow> vec \<Rightarrow> int list \<Rightarrow> error + (vec \<times> matrix \<times> matrix \<times> matrix)" where
  "ctc_fit torch_installed max_iter X0 y0 sample_domain0 =
     (case check_X_y_domain X0 y0 sample_domain0 of
        Inl e \<Rightarrow> Inl e
      | Inr (X, y, sample_domain) \<Rightarrow>
          (let (X_source, X_target) = source_target_split X sample_domain;
               (y_source, y_target) = source_target_split y sample_domain
           in call_mapping_optimization torch_installed max_iter
                [ArgMatrix X_source, ArgMatrix X_target, ArgVector y_source]))"

section \<open>Properties\<close>

subsection \<open>Shapes of the helpers\<close>

lemma length_pairwise_kernels: "length (pairwise_kernels ker X Y) = length X"
  by (simp add: pairwise_kernels_def)

lemma pairwise_kernels_nth:
  "i < length X \<Longrightarrow> j < length Y \<Longrightarrow> pairwise_kernels ker X Y ! i ! j = ker (X ! i) (Y ! j)"
  by (simp add: pairwise_kernels_def)

lemma pairwise_kernels_row_length:
  "i < length X \<Longrightarrow> length (pairwise_kernels ker X Y ! i) = length Y"
  by (simp add: pairwise_kernels_def)

lemma length_get_kernel_matrix:
  "length (get_kernel_matrix ker X_source X_target) = length X_source + length X_target"
  by (simp add: get_kernel_matrix_def Let_def block_def hstack_def mT_def pairwise_kernels_def)

lemma get_kernel_matrix_top_right:
  assumes "i < length X_source" and "j < length X_target"
  shows "get_kernel_matrix ker X_source X_target ! i ! (length X_source + j)
         = ker (X_source ! i) (X_target ! j)"
  using assms
  by (simp add: get_kernel_matrix_def Let_def block_def hstack_def mT_def pairwise_kernels_def
      nth_append)

lemma get_kernel_matrix_bottom_left:
  assumes "i < length X_source" and "j < length X_target"
  shows "get_kernel_matrix ker X_source X_target ! (length X_source + j) ! i
         = ker (X_source ! i) (X_target ! j)"
  using assms
  by (simp add: get_kernel_matrix_def Let_def block_def hstack_def mT_def pairwise_kernels_def
      nth_append column_def)

subsection \<open>The combined kernel matrix\<close>

lemma tca_fit_Inr:
  assumes "tca_fit ker mu n_components solve eigh X sample_domain = Inr st"
  shows "length X = length sample_domain
    \<and> tca_X_source st = fst (source_target_split X sample_domain)
    \<and> tca_X_target st = snd (source_target_split X sample_domain)
    \<and> tca_K st = get_kernel_matrix ker (tca_X_source st) (tca_X_target st)"
  using assms
  by (auto simp: tca_fit_def check_X_domain_def get_kernel_matrix_def Let_def
      split: if_splits sum.splits prod.splits)

lemma tca_fit_example:
  "tca_fit dot 1 None (\<lambda>A B. Inr B) (\<lambda>S. Inr ([0, 1], S)) [[1], [2]] [1, -1]
   = Inr \<lparr>tca_X_source = [[1]], tca_X_target = [[2]], tca_K = [[1, 2], [2, 4]],
          tca_eigvects = [[1], [2]]\<rparr>"
  by (simp add: tca_fit_def check_X_domain_def source_target_split_def select_rows_def
      extract_source_indices_def pairwise_kernels_def block_def hstack_def mT_def column_def
      dot_def get_mmd_matrix_def Let_def smul_def ones_def eye_def msub_def madd_def
      matmul_def vecmat_def ncols_def selected_components_def argsort_def select_columns_def)

lemma tca_fit_asymmetric_example:
  "tca_fit (\<lambda>x y. dot x y + sum_list x) 1 None (\<lambda>A B. Inr B)
     (\<lambda>S. Inr ([0, 1], [[1, 0], [0, 1]])) [[1], [2]] [1, -1]
   = Inr \<lparr>tca_X_source = [[1]], tca_X_target = [[2]], tca_K = [[2, 3], [3, 6]],
          tca_eigvects = [[0], [1]]\<rparr>"
  by (simp add: tca_fit_def check_X_domain_def source_target_split_def select_rows_def
      extract_source_indices_def pairwise_kernels_def block_def hstack_def mT_def column_def
      dot_def get_mmd_matrix_def Let_def smul_def ones_def eye_def msub_def madd_def
      matmul_def vecmat_def ncols_def selected_components_def argsort_def select_columns_def)

lemma split_example: "source_target_split [[1], [2::real]] [1, -1] = ([[1]], [[2]])"
  by (simp add: source_target_split_def select_rows_def extract_source_indices_def)

text \<open>
  C8. The combined kernel matrix that the fit of TCA stores and the one that
  \<open>_get_kernel_matrix\<close> of TJM returns are symmetric across their cross blocks: for a
  source index \<open>i\<close> and a target index \<open>j\<close>, the entry at \<open>(i, n_s + j)\<close> is the entry
  at \<open>(n_s + j, i)\<close>. The bottom-left block is the transpose of the computed
  source-target block, so this holds for every kernel, symmetric or not.
\<close>

theorem kernel_cross_blocks_symmetric:
  assumes "tca_fit ker mu n_components solve eigh X sample_domain = Inr st"
    and "source_target_split X sample_domain = (X_source, X_target)"
    and "i < length X_source" and "j < length X_target"
  shows "tca_K st ! i ! (length X_source + j) = tca_K st ! (length X_source + j) ! i
       \<and> get_kernel_matrix ker X_source X_target ! i ! (length X_source + j)
         = get_kernel_matrix ker X_source X_target ! (length X_source + j) ! i
       \<and> tca_K st ! (length X_source + j) ! i = ker (X_source ! i) (X_target ! j)
       \<and> get_kernel_matrix ker X_source X_target ! (length X_source + j) ! i
         = ker (X_source ! i) (X_target ! j)"
proof -
  have K: "tca_K st = get_kernel_matrix ker X_source X_target"
    using tca_fit_Inr [OF assms(1)] assms(2) by simp
  show ?thesis
    unfolding K
    using get_kernel_matrix_top_right [OF assms(3,4), of ker]
      get_kernel_matrix_bottom_left [OF assms(3,4), of ker]
    by simp
qed

text \<open>A kernel that is not symmetric: the kernel of 1 with 2 is 3, that of 2 with 1
  is 4, and both cross entries of K are 3.\<close>

theorem kernel_cross_blocks_symmetric_witness:
  "tca_fit (\<lambda>x y. dot x y + sum_list x) 1 None (\<lambda>A B. Inr B)
       (\<lambda>S. Inr ([0, 1], [[1, 0], [0, 1]])) [[1], [2]] [1, -1]
     = Inr \<lparr>tca_X_source = [[1]], tca_X_target = [[2]], tca_K = [[2, 3], [3, 6]],
            tca_eigvects = [[0], [1]]\<rparr>
   \<and> source_target_split [[1], [2::real]] [1, -1] = ([[1]], [[2]])
   \<and> (0::nat) < length [[1::real]] \<and> (0::nat) < length [[2::real]]
   \<and> [[2, 3], [3, 6::real]] ! 0 ! (1 + 0) = [[2, 3], [3, 6::real]] ! (1 + 0) ! 0
   \<and> get_kernel_matrix (\<lambda>x y. dot x y + sum_list x) [[1]] [[2]] ! 0 ! (1 + 0)
     = get_kernel_matrix (\<lambda>x y. dot x y + sum_list x) [[1]] [[2]] ! (1 + 0) ! 0
   \<and> [[2, 3], [3, 6::real]] ! (1 + 0) ! 0 = dot [1] [2] + sum_list [1]
   \<and> dot [2] [1] + sum_list [2 :: real] = 4"
  using kernel_cross_blocks_symmetric [OF tca_fit_asymmetric_example split_example, of 0 0]
    tca_fit_asymmetric_example split_example
  by (simp add: dot_def)

subsection \<open>The loop of Transfer Joint Matching\<close>

lemma early_stop_initial:
  assumes "0 < tol"
  shows "early_stop (- 2 * tol) loss_total tol"
proof -
  have nonneg: "0 \<le> \<bar>- 2 * tol - loss_total\<bar> / (2 * tol)"
    using assms by simp
  have "\<bar>- 2 * tol - loss_total\<bar> / (- 2 * tol) = - (\<bar>- 2 * tol - loss_total\<bar> / (2 * tol))"
    by simp
  with nonneg assms have "\<bar>- 2 * tol - loss_total\<bar> / (- 2 * tol) < tol"
    by linarith
  then show ?thesis unfolding early_stop_def by blast
qed

lemma tjm_loop_first_pass:
  assumes "0 < tol"
  shows "tjm_loop body tol (Suc r) G (- 2 * tol) None
         = (case body G of Inl e \<Rightarrow> Inl e | Inr (A, G', loss_total) \<Rightarrow> Inr A)"
  using early_stop_initial [OF assms]
  by (simp split: sum.splits prod.splits)

text \<open>
  C1. The claim is that, for \<open>tol > 0\<close>, the test that ends the loop never fires at the
  end of the first pass. The code does the opposite: \<open>last_loss\<close> starts at
  \<open>-2 * tol\<close>, a negative number, so \<open>|last_loss - loss_total| / last_loss\<close> is at
  most 0 and lies below \<open>tol\<close> whatever \<open>loss_total\<close> is. The test fires at the end
  of the first pass, and a fit with any \<open>max_iter\<close> of at least one returns what a fit
  with \<open>max_iter = 1\<close> returns.
\<close>

theorem tjm_first_iteration_always_stops:
  assumes "0 < tol"
  shows "early_stop (- 2 * tol) loss_total tol
       \<and> tjm_fit ker eigh n_components tradeoff (Suc r) tol X sample_domain
         = tjm_fit ker eigh n_components tradeoff 1 tol X sample_domain"
proof -
  have eq: "tjm_loop body tol (Suc r) G (- 2 * tol) None
            = tjm_loop body tol 1 G (- 2 * tol) None" for body G
    using tjm_loop_first_pass [OF assms, of body r G] tjm_loop_first_pass [OF assms, of body 0 G]
    by simp
  have "tjm_fit ker eigh n_components tradeoff (Suc r) tol X sample_domain
         = tjm_fit ker eigh n_components tradeoff 1 tol X sample_domain"
    by (simp only: tjm_fit_def Let_def eq)
  with early_stop_initial [OF assms] show ?thesis by simp
qed

theorem tjm_first_iteration_always_stops_witness:
  "(0::real) < 1 / 100
   \<and> early_stop (- 2 * (1 / 100)) 1 (1 / 100)
   \<and> tjm_fit dot (\<lambda>B C. Inr ([0, 0], [[1, 0], [0, 1]])) None (1 / 100) (Suc 99) (1 / 100)
        [[1], [2]] [1, -1]
     = tjm_fit dot (\<lambda>B C. Inr ([0, 0], [[1, 0], [0, 1]])) None (1 / 100) 1 (1 / 100)
        [[1], [2]] [1, -1]"
  using tjm_first_iteration_always_stops [of "1 / 100" 1 dot
      "\<lambda>B C. Inr ([0, 0], [[1, 0], [0, 1]])" None "1 / 100" 99 "[[1], [2]]" "[1, -1]"]
  by simp

subsection \<open>The update of G\<close>

lemma masked_assign_select:
  assumes "length G = length msk" and "length xs = length msk"
  shows "masked_assign G msk (map f (select_rows xs msk))
         = Inr (map (\<lambda>(g, m, x). if m then f x else g) (zip G (zip msk xs)))"
  using assms(1) assms(2) [symmetric]
proof (induction G msk xs rule: list_induct3)
  case Nil
  then show ?case by (simp add: select_rows_def)
next
  case (Cons g G m msk x xs)
  then show ?case by (simp add: select_rows_def)
qed

lemma masked_assign_Inr_length:
  "masked_assign G msk vs = Inr G' \<Longrightarrow> length G = length msk \<and> length G' = length G"
  by (induction G msk vs arbitrary: G' rule: masked_assign.induct)
    (auto split: if_splits list.splits sum.splits)

lemma norm2_nonneg: "0 \<le> norm2 v"
  by (auto simp: norm2_def intro!: sum_list_nonneg)

lemma update_G_Inr:
  assumes "update_G n A source_mask = Inr g"
  shows "length A = n \<and> length source_mask = n \<and> length g = n"
  using assms
  by (auto simp: update_G_def Let_def masked_fill_def
      split: sum.splits if_splits dest!: masked_assign_Inr_length)

lemma update_G_nth:
  assumes "update_G n A source_mask = Inr g" and "i < n"
  shows "g ! i = (if \<not> source_mask ! i then 1
                  else if norm2 (A ! i) \<noteq> 0 then 1 / (2 * norm2 (A ! i) + EPS_eigval)
                  else 0)"
proof -
  have len: "length A = n" "length source_mask = n"
    using update_G_Inr [OF assms(1)] by simp_all
  let ?norms = "map norm2 A"
  let ?nz = "map (\<lambda>a. a \<noteq> 0) ?norms"
  have ma: "masked_assign (replicate n 0) ?nz
               (map (\<lambda>a. 1 / (2 * a + EPS_eigval)) (select_rows ?norms ?nz))
            = Inr (map (\<lambda>(g, m, x). if m then 1 / (2 * x + EPS_eigval) else g)
                    (zip (replicate n 0) (zip ?nz ?norms)))"
    by (rule masked_assign_select) (simp_all add: len)
  have "g = map2 (\<lambda>g m. if m then 1 else g)
              (map (\<lambda>(g, m, x). if m then 1 / (2 * x + EPS_eigval) else g)
                    (zip (replicate n 0) (zip ?nz ?norms)))
              (map Not source_mask)"
    using assms(1) ma by (simp add: update_G_def Let_def masked_fill_def len split: if_splits)
  then show ?thesis using assms(2) len by simp
qed


lemma diag_nth: "i < length g \<Longrightarrow> diag g ! i ! i = g ! i"
  by (simp add: diag_def)

lemma tjm_iteration_Inr:
  assumes "tjm_iteration eigh K M H n tradeoff n_components source_mask G
           = Inr (A, G', loss_total)"
  shows "\<exists>g. update_G n A source_mask = Inr g \<and> G' = diag g"
  using assms
  by (auto simp: tjm_iteration_def Let_def split: sum.splits prod.splits)

lemma denominator_positive: "0 < 2 * norm2 v + EPS_eigval"
proof -
  have "0 < EPS_eigval" by (simp add: EPS_eigval_def)
  with norm2_nonneg [of v] show ?thesis by linarith
qed

lemma argsort_example: "argsort [1 / 10 ^ 10, 1 + 1 / 10 ^ 10, 2 + 1 / 10 ^ 10] = [0, 1, 2]"
  by (simp add: argsort_def upt_rec)

lemma update_G_example:
  "update_G 3 [[1], [0], [0]] [True, True, False] = Inr [1 / (2 + 1 / 10 ^ 10), 0, 1]"
  by (simp add: update_G_def Let_def norm2_def select_rows_def masked_fill_def
      EPS_eigval_def eval_nat_numeral)

lemma tjm_iteration_example:
  "tjm_iteration (\<lambda>B C. Inr ([0, 1, 2], [[1, 0, 0], [0, 0, 0], [0, 0, 1]]))
     [[1, 0, 0], [0, 1, 0], [0, 0, 1]] [[0, 0, 0], [0, 0, 0], [0, 0, 0]]
     [[0, 0, 0], [0, 0, 0], [0, 0, 0]] 3 (1 / 100) 1 [True, True, False]
     [[1, 0, 0], [0, 1, 0], [0, 0, 1]]
   = Inr ([[1], [0], [0]],
          [[1 / (2 + 1 / 10 ^ 10), 0, 0], [0, 0, 0], [0, 0, 1]], 1 / 100)"
proof -
  have sel: "select_columns [[1, 0, 0], [0, 0, 0], [0, 0, 1]] (take 1 [0, 1, 2])
             = [[1], [0], [0]]"
    by (simp add: select_columns_def)
  have phi: "map (\<lambda>p. p + EPS_eigval) [0, 1, 2]
             = [1 / 10 ^ 10, 1 + 1 / 10 ^ 10, 2 + 1 / 10 ^ 10]"
    by (simp add: EPS_eigval_def)
  have dg: "diag [1 / (2 + 1 / 10 ^ 10), 0, 1]
            = [[1 / (2 + 1 / 10 ^ 10), 0, 0], [0, 0, 0], [0, 0, 1::real]]"
    by (simp add: diag_def upt_rec)
  have loss: "trace (matmul (matmul (matmul (matmul (mT (ncols [[1], [0], [0]]) [[1], [0], [0]])
                [[1, 0, 0], [0, 1, 0], [0, 0, 1]]) [[0, 0, 0], [0, 0, 0], [0, 0, 0]])
                [[1, 0, 0], [0, 1, 0], [0, 0, 1]]) [[1], [0], [0]]) = 0"
    by (simp add: trace_def matmul_def vecmat_def mT_def ncols_def column_def dot_def upt_rec)
  have reg: "sum_list (map norm2 (select_rows [[1], [0], [0]] [True, True, False]))
             + (fro_norm (select_rows [[1], [0], [0]] (map Not [True, True, False])))\<^sup>2 = 1"
    by (simp add: select_rows_def norm2_def fro_norm_def)
  show ?thesis
    unfolding tjm_iteration_def Let_def
    by (simp only: sum.case prod.case phi argsort_example sel update_G_example dg loss reg)
      simp
qed

text \<open>
  After a pass through the body of the loop the new G has, on its diagonal, 1 at every
  index at which the mask given to the pass is false, \<open>1 / (2 * norm + EPS_eigval)\<close>
  at every index at which the mask is true and the row of the new A has a nonzero L2
  norm, and 0 where the mask is true and the row has norm zero; the denominator
  \<open>2 * norm + EPS_eigval\<close> is positive for every row. Which rows the mask of
  \<open>fit\<close> marks is another matter, taken up below.
\<close>

lemma tjm_G_update_entries:
  assumes "tjm_iteration eigh K M H n tradeoff n_components source_mask G
           = Inr (A, G', loss_total)"
    and "i < n"
  shows "(\<not> source_mask ! i \<longrightarrow> G' ! i ! i = 1)
       \<and> (source_mask ! i \<and> norm2 (A ! i) \<noteq> 0
            \<longrightarrow> G' ! i ! i = 1 / (2 * norm2 (A ! i) + EPS_eigval))
       \<and> (source_mask ! i \<and> norm2 (A ! i) = 0 \<longrightarrow> G' ! i ! i = 0)
       \<and> 0 < 2 * norm2 (A ! i) + EPS_eigval"
proof -
  obtain g where g: "update_G n A source_mask = Inr g" and G': "G' = diag g"
    using tjm_iteration_Inr [OF assms(1)] by blast
  have "length g = n" using update_G_Inr [OF g] by simp
  with assms(2) have "G' ! i ! i = g ! i" by (simp add: G' diag_nth)
  with update_G_nth [OF g assms(2)] denominator_positive [of "A ! i"]
  show ?thesis by simp
qed

lemma tjm_G_update_entries_example:
  "tjm_iteration (\<lambda>B C. Inr ([0, 1, 2], [[1, 0, 0], [0, 0, 0], [0, 0, 1]]))
     [[1, 0, 0], [0, 1, 0], [0, 0, 1]] [[0, 0, 0], [0, 0, 0], [0, 0, 0]]
     [[0, 0, 0], [0, 0, 0], [0, 0, 0]] 3 (1 / 100) 1 [True, True, False]
     [[1, 0, 0], [0, 1, 0], [0, 0, 1]]
   = Inr ([[1], [0], [0]],
          [[1 / (2 + 1 / 10 ^ 10), 0, 0], [0, 0, 0], [0, 0, 1]], 1 / 100)
   \<and> (0::nat) < 3 \<and> (1::nat) < 3 \<and> (2::nat) < 3
   \<and> [[1 / (2 + 1 / 10 ^ 10), 0, 0], [0, 0, 0], [0, 0, 1::real]] ! 0 ! 0
       = 1 / (2 * norm2 [1] + EPS_eigval)
   \<and> [[1 / (2 + 1 / 10 ^ 10), 0, 0], [0, 0, 0], [0, 0, 1::real]] ! 1 ! 1 = 0
   \<and> [[1 / (2 + 1 / 10 ^ 10), 0, 0], [0, 0, 0], [0, 0, 1::real]] ! 2 ! 2 = 1
   \<and> 0 < 2 * norm2 [0] + EPS_eigval"
  using tjm_G_update_entries [OF tjm_iteration_example, of 0]
    tjm_G_update_entries [OF tjm_iteration_example, of 1]
    tjm_G_update_entries [OF tjm_iteration_example, of 2]
    tjm_iteration_example
  by (simp add: norm2_def)

subsection \<open>The components that Transfer Component Analysis selects\<close>










subsection \<open>Adapt of Transfer Component Analysis\<close>

lemma length_select_rows_compl:
  "length X = length msk \<Longrightarrow>
   length (select_rows X msk) + length (select_rows X (map Not msk)) = length X"
  by (induction X msk rule: list_induct2) (simp_all add: select_rows_def)

lemma split_lengths:
  assumes "length X = length sample_domain"
    and "source_target_split X sample_domain = (X_source, X_target)"
  shows "length X_source + length X_target = length X"
  using assms length_select_rows_compl [of X "extract_source_indices sample_domain"]
  by (auto simp: source_target_split_def extract_source_indices_def)

lemma length_matmul: "length (matmul A B) = length A"
  by (simp add: matmul_def)

lemma tca_adapt_branches:
  assumes "length X = length sample_domain"
    and "source_target_split X sample_domain = (X_source, X_target)"
  shows "tca_adapt ker st X sample_domain
         = Inr (if X_source = tca_X_source st \<and> X_target = tca_X_target st
                then take (length X) (matmul (tca_K st) (tca_eigvects st))
                else take (length X)
                       (matmul (hstack (pairwise_kernels ker X (tca_X_source st))
                                       (pairwise_kernels ker X (tca_X_target st)))
                          (tca_eigvects st)))"
  using assms by (simp add: tca_adapt_def check_X_domain_def Let_def)

lemma tca_adapt_fit_data:
  assumes "tca_fit ker mu n_components solve eigh X sample_domain = Inr st"
  shows "tca_adapt ker st X sample_domain = Inr (matmul (tca_K st) (tca_eigvects st))"
proof -
  have len: "length X = length sample_domain"
    and src: "tca_X_source st = fst (source_target_split X sample_domain)"
    and tgt: "tca_X_target st = snd (source_target_split X sample_domain)"
    and K: "tca_K st = get_kernel_matrix ker (tca_X_source st) (tca_X_target st)"
    using tca_fit_Inr [OF assms] by blast+
  have sp: "source_target_split X sample_domain = (tca_X_source st, tca_X_target st)"
    by (simp add: src tgt)
  have "length (tca_X_source st) + length (tca_X_target st) = length X"
    using len sp by (rule split_lengths)
  then have "length (tca_K st) = length X"
    by (simp only: K length_get_kernel_matrix)
  then have "take (length X) (matmul (tca_K st) (tca_eigvects st))
             = matmul (tca_K st) (tca_eigvects st)"
    by (simp add: length_matmul)
  with tca_adapt_branches [OF len sp, of ker st] show ?thesis by simp
qed

lemma tca_recompute_example:
  "matmul (hstack (pairwise_kernels dot [[3]] [[1]]) (pairwise_kernels dot [[3]] [[2]]))
     [[1], [2]] = [[15]]"
  by (simp add: matmul_def vecmat_def hstack_def pairwise_kernels_def dot_def ncols_def
      column_def)

lemma tca_reuse_example: "matmul [[1, 2], [2, 4]] [[1], [2]] = [[5], [10]]"
  by (simp add: matmul_def vecmat_def dot_def ncols_def column_def)

lemma split_example_2: "source_target_split [[3::real]] [1] = ([[3]], [])"
  by (simp add: source_target_split_def select_rows_def extract_source_indices_def)

text \<open>
  C5. When the source and target blocks of the input of \<open>adapt\<close> equal the stored fit
  blocks, \<open>adapt\<close> returns the product of the stored kernel matrix and the stored
  eigenvectors, cut to the number of input rows; otherwise it computes the kernels of
  the input rows with the stored source block and with the stored target block, puts
  them side by side and multiplies by the stored eigenvectors. On the data of the fit
  the result is the whole product of the stored kernel matrix and the eigenvectors.
\<close>

theorem tca_adapt_reuse_or_recompute:
  assumes "length X = length sample_domain"
    and "source_target_split X sample_domain = (X_source, X_target)"
  shows "tca_adapt ker st X sample_domain
         = Inr (if X_source = tca_X_source st \<and> X_target = tca_X_target st
                then take (length X) (matmul (tca_K st) (tca_eigvects st))
                else take (length X)
                       (matmul (hstack (pairwise_kernels ker X (tca_X_source st))
                                       (pairwise_kernels ker X (tca_X_target st)))
                          (tca_eigvects st)))
       \<and> (\<forall>mu n_components solve eigh.
            tca_fit ker mu n_components solve eigh X sample_domain = Inr st \<longrightarrow>
            tca_adapt ker st X sample_domain = Inr (matmul (tca_K st) (tca_eigvects st)))"
  using tca_adapt_branches [OF assms] tca_adapt_fit_data by blast

theorem tca_adapt_reuse_or_recompute_witness:
  "length [[1], [2::real]] = length [1, -1 :: int]
   \<and> source_target_split [[1], [2::real]] [1, -1] = ([[1]], [[2]])
   \<and> tca_fit dot 1 None (\<lambda>A B. Inr B) (\<lambda>S. Inr ([0, 1], S)) [[1], [2]] [1, -1]
       = Inr \<lparr>tca_X_source = [[1]], tca_X_target = [[2]], tca_K = [[1, 2], [2, 4]],
              tca_eigvects = [[1], [2]]\<rparr>
   \<and> tca_adapt dot \<lparr>tca_X_source = [[1]], tca_X_target = [[2]], tca_K = [[1, 2], [2, 4]],
                     tca_eigvects = [[1], [2]]\<rparr> [[1], [2]] [1, -1] = Inr [[5], [10]]
   \<and> length [[3::real]] = length [1 :: int]
   \<and> source_target_split [[3::real]] [1] = ([[3]], [])
   \<and> tca_adapt dot \<lparr>tca_X_source = [[1]], tca_X_target = [[2]], tca_K = [[1, 2], [2, 4]],
                     tca_eigvects = [[1], [2]]\<rparr> [[3]] [1] = Inr [[15]]"
  using tca_adapt_reuse_or_recompute [OF _ split_example, of dot
      "\<lparr>tca_X_source = [[1]], tca_X_target = [[2]], tca_K = [[1, 2], [2, 4]],
        tca_eigvects = [[1], [2]]\<rparr>"]
    tca_adapt_reuse_or_recompute [OF _ split_example_2, of dot
      "\<lparr>tca_X_source = [[1]], tca_X_target = [[2]], tca_K = [[1, 2], [2, 4]],
        tca_eigvects = [[1], [2]]\<rparr>"]
    tca_fit_example split_example split_example_2 tca_recompute_example tca_reuse_example
  by simp

text \<open>When the kernels are computed anew, row \<open>i\<close> of the result is made from row
  \<open>i\<close> of the input alone, whatever the order of the domain labels.\<close>

lemma tca_adapt_recompute_rows:
  assumes "length X = length sample_domain"
    and "source_target_split X sample_domain = (X_source, X_target)"
    and "\<not> (X_source = tca_X_source st \<and> X_target = tca_X_target st)"
    and "i < length X"
  shows "\<exists>Y. tca_adapt ker st X sample_domain = Inr Y \<and> length Y = length X
           \<and> Y ! i = vecmat (map (ker (X ! i)) (tca_X_source st)
                              @ map (ker (X ! i)) (tca_X_target st)) (tca_eigvects st)"
  using tca_adapt_branches [OF assms(1,2), of ker st] assms(3,4)
  by (simp add: matmul_def hstack_def pairwise_kernels_def)

lemma split_interleaved:
  "source_target_split [[1], [2], [3::real]] [1, -1, 1] = ([[1], [3]], [[2]])"
  by (simp add: source_target_split_def select_rows_def extract_source_indices_def)

lemma kernel_interleaved:
  "get_kernel_matrix dot [[1], [3]] [[2]] = [[1, 3, 2], [3, 9, 6], [2, 6, 4]]"
  by (simp add: get_kernel_matrix_def Let_def pairwise_kernels_def block_def hstack_def
      mT_def column_def dot_def upt_rec)

lemma sel_interleaved: "selected_components [0, 0, 1] 1 = [2]"
  by (simp add: selected_components_def argsort_def upt_rec)

lemma check_interleaved:
  "check_X_domain [[1], [2], [3::real]] [1, -1, 1] = Inr ([[1], [2], [3]], [1, -1, 1])"
  by (simp add: check_X_domain_def)

lemma mmd_interleaved:
  "\<exists>L. get_mmd_matrix (length [[1], [3::real]]) (length [[2::real]]) = Inr L"
  by (simp add: get_mmd_matrix_def Let_def)

lemma tca_fit_interleaved:
  "tca_fit dot 1 (Some 1) (\<lambda>A B. Inr B)
     (\<lambda>S. Inr ([0, 0, 1], [[0, 0, 1], [0, 1, 0], [1, 0, 0]])) [[1], [2], [3]] [1, -1, 1]
   = Inr \<lparr>tca_X_source = [[1], [3]], tca_X_target = [[2]],
          tca_K = [[1, 3, 2], [3, 9, 6], [2, 6, 4]], tca_eigvects = [[1], [0], [0]]\<rparr>"
proof -
  have K: "block (pairwise_kernels dot [[1], [3]] [[1], [3]])
             (pairwise_kernels dot [[1], [3]] [[2]])
             (mT (length [[2::real]]) (pairwise_kernels dot [[1], [3]] [[2]]))
             (pairwise_kernels dot [[2]] [[2]]) = [[1, 3, 2], [3, 9, 6], [2, 6, 4]]"
    using kernel_interleaved by (simp add: get_kernel_matrix_def Let_def)
  obtain L where L: "get_mmd_matrix (length [[1], [3::real]]) (length [[2::real]]) = Inr L"
    using mmd_interleaved by blast
  have cols: "select_columns [[0, 0, 1], [0, 1, 0], [1, 0, 0]] [2] = [[1], [0], [0]]"
    by (simp add: select_columns_def)
  show ?thesis
    unfolding tca_fit_def Let_def
    by (simp only: check_interleaved split_interleaved K L sel_interleaved cols
        sum.case prod.case option.case)
qed

lemma tca_adapt_interleaved:
  "tca_adapt dot \<lparr>tca_X_source = [[1], [3]], tca_X_target = [[2]],
          tca_K = [[1, 3, 2], [3, 9, 6], [2, 6, 4]], tca_eigvects = [[1], [0], [0]]\<rparr>
     [[1], [2], [3]] [1, -1, 1] = Inr [[1], [3], [2]]"
  unfolding tca_adapt_def Let_def
  by (simp only: check_interleaved split_interleaved sum.case prod.case)
    (simp add: matmul_def vecmat_def dot_def ncols_def column_def)

lemma tca_rows_interleaved:
  "matmul (hstack (pairwise_kernels dot [[1], [2], [3]] [[1], [3]])
                  (pairwise_kernels dot [[1], [2], [3]] [[2]])) [[1], [0], [0]]
   = [[1], [2], [3]]"
  by (simp add: matmul_def vecmat_def dot_def ncols_def column_def hstack_def
      pairwise_kernels_def)

lemma tjm_adapt_interleaved:
  "tjm_adapt dot \<lparr>tjm_X_source = [[1], [3]], tjm_X_target = [[2]], tjm_A = [[1], [0], [0]]\<rparr>
     [[1], [2], [3]] [1, -1, 1] = Inr [[1], [3], [2]]"
  unfolding tjm_adapt_def Let_def
  by (simp only: check_interleaved split_interleaved sum.case prod.case kernel_interleaved)
    (simp add: matmul_def vecmat_def dot_def ncols_def column_def)

text \<open>
  C2. The claim is that the rows of the output of \<open>adapt\<close> are in the order of the
  rows of the input for every order of the domain labels. TCA fitted on the three
  samples 1 (source), 2 (target), 3 (source), in this interleaved order, and adapted
  on the same data, takes the branch that reuses the stored kernel matrix, whose rows
  are in block order: source rows first. Row 1 of the output is then the embedding of
  the sample 3 and not of the input row 1, the sample 2; the branch that computes the
  kernels anew gives the rows in input order. The same branch of TJM does the same.
\<close>

theorem tca_adapt_interleaved_block_order:
  "tca_fit dot 1 (Some 1) (\<lambda>A B. Inr B)
     (\<lambda>S. Inr ([0, 0, 1], [[0, 0, 1], [0, 1, 0], [1, 0, 0]])) [[1], [2], [3]] [1, -1, 1]
   = Inr \<lparr>tca_X_source = [[1], [3]], tca_X_target = [[2]],
          tca_K = [[1, 3, 2], [3, 9, 6], [2, 6, 4]], tca_eigvects = [[1], [0], [0]]\<rparr>
   \<and> tca_adapt dot \<lparr>tca_X_source = [[1], [3]], tca_X_target = [[2]],
          tca_K = [[1, 3, 2], [3, 9, 6], [2, 6, 4]], tca_eigvects = [[1], [0], [0]]\<rparr>
        [[1], [2], [3]] [1, -1, 1] = Inr [[1], [3], [2]]
   \<and> matmul (hstack (pairwise_kernels dot [[1], [2], [3]] [[1], [3]])
                    (pairwise_kernels dot [[1], [2], [3]] [[2]])) [[1], [0], [0]]
       = [[1], [2], [3]]
   \<and> tjm_adapt dot \<lparr>tjm_X_source = [[1], [3]], tjm_X_target = [[2]],
          tjm_A = [[1], [0], [0]]\<rparr> [[1], [2], [3]] [1, -1, 1] = Inr [[1], [3], [2]]"
  using tca_fit_interleaved tca_adapt_interleaved tca_rows_interleaved tjm_adapt_interleaved
  by simp

subsection \<open>The source mask of Transfer Joint Matching and the order of the rows\<close>

lemma tjm_fit_via_setup:
  "tjm_fit ker eigh n_components tradeoff max_iter tol X sample_domain
   = (case tjm_fit_setup ker n_components X sample_domain of
        Inl e \<Rightarrow> Inl e
      | Inr s \<Rightarrow>
          (case tjm_loop
                  (tjm_iteration eigh (su_K s) (su_M s) (su_H s) (su_n s) tradeoff
                     (su_n_components s) (su_source_mask s))
                  tol max_iter (su_G s) (- 2 * tol) None of
             Inl e \<Rightarrow> Inl e
           | Inr A \<Rightarrow>
               Inr \<lparr>tjm_X_source = su_X_source s, tjm_X_target = su_X_target s,
                    tjm_A = A\<rparr>))"
proof (cases "check_X_domain X sample_domain")
  case (Inl e)
  then show ?thesis by (simp add: tjm_fit_def tjm_fit_setup_def)
next
  case (Inr p)
  obtain X' sample_domain' where p: "p = (X', sample_domain')" by (cases p)
  obtain X_source X_target
    where sp: "source_target_split X' sample_domain' = (X_source, X_target)"
    by (cases "source_target_split X' sample_domain'")
  show ?thesis
  proof (cases "length X' = 0")
    case True
    with Inr p sp show ?thesis by (simp add: tjm_fit_def tjm_fit_setup_def)
  next
    case False
    show ?thesis
    proof (cases "get_mmd_matrix (length X_source) (length X_target)")
      case (Inl e)
      with Inr p sp False show ?thesis
        by (simp add: tjm_fit_def tjm_fit_setup_def Let_def)
    next
      case (Inr M0)
      with \<open>check_X_domain X sample_domain = Inr p\<close> p sp False show ?thesis
        by (simp add: tjm_fit_def tjm_fit_setup_def Let_def split: sum.split)
    qed
  qed
qed

lemma tjm_setup_interleaved:
  "\<exists>H M. tjm_fit_setup dot (Some 3) [[1], [2], [3]] [1, -1, 1]
     = Inr \<lparr>su_X_source = [[1], [3]], su_X_target = [[2]], su_n_components = 3, su_n = 3,
            su_source_mask = [True, False, True], su_H = H,
            su_K = [[1, 3, 2], [3, 9, 6], [2, 6, 4]], su_M = M,
            su_G = [[1, 0, 0], [0, 1, 0], [0, 0, 1]]\<rparr>"
proof -
  obtain L where L: "get_mmd_matrix (length [[1], [3::real]]) (length [[2::real]]) = Inr L"
    using mmd_interleaved by blast
  have mask: "extract_source_indices [1, -1, 1] = [True, False, True]"
    by (simp add: extract_source_indices_def)
  have n: "length [[1], [2], [3::real]] = 3" by simp
  have G: "eye 3 = [[1, 0, 0], [0, 1, 0], [0, 0, 1]]"
    by (simp add: eye_def upt_rec)
  have "tjm_fit_setup dot (Some 3) [[1], [2], [3]] [1, -1, 1]
     = Inr \<lparr>su_X_source = [[1], [3]], su_X_target = [[2]], su_n_components = 3, su_n = 3,
            su_source_mask = [True, False, True],
            su_H = msub (eye 3) (smul (1 / real (3::nat)) (ones 3 3)),
            su_K = [[1, 3, 2], [3, 9, 6], [2, 6, 4]],
            su_M = map (map (\<lambda>x. x / fro_norm L)) L,
            su_G = [[1, 0, 0], [0, 1, 0], [0, 0, 1]]\<rparr>"
    unfolding tjm_fit_setup_def Let_def
    by (simp only: check_interleaved split_interleaved kernel_interleaved L mask n G
        sum.case prod.case option.case)
      simp
  then show ?thesis by blast
qed

lemma update_G_interleaved:
  "update_G 3 [[1, 0, 0], [0, 1, 0], [0, 0, 1]] [True, False, True]
   = Inr [1 / (2 + 1 / 10 ^ 10), 1, 1 / (2 + 1 / 10 ^ 10)]"
  by (simp add: update_G_def Let_def norm2_def select_rows_def masked_fill_def
      EPS_eigval_def eval_nat_numeral)

lemma tjm_iteration_interleaved:
  "\<exists>l. tjm_iteration (\<lambda>B C. Inr ([0, 1, 2], [[1, 0, 0], [0, 1, 0], [0, 0, 1]]))
     K M H 3 tradeoff 3 [True, False, True] G
   = Inr ([[1, 0, 0], [0, 1, 0], [0, 0, 1]],
          [[1 / (2 + 1 / 10 ^ 10), 0, 0], [0, 1, 0], [0, 0, 1 / (2 + 1 / 10 ^ 10)]], l)"
proof -
  have sel: "select_columns [[1, 0, 0], [0, 1, 0], [0, 0, 1]] (take 3 [0, 1, 2])
             = [[1, 0, 0], [0, 1, 0], [0, 0, 1]]"
    by (simp add: select_columns_def)
  have phi: "map (\<lambda>p. p + EPS_eigval) [0, 1, 2]
             = [1 / 10 ^ 10, 1 + 1 / 10 ^ 10, 2 + 1 / 10 ^ 10]"
    by (simp add: EPS_eigval_def)
  have dg: "diag [1 / (2 + 1 / 10 ^ 10), 1, 1 / (2 + 1 / 10 ^ 10)]
            = [[1 / (2 + 1 / 10 ^ 10), 0, 0], [0, 1, 0], [0, 0, 1 / (2 + 1 / 10 ^ 10 :: real)]]"
    by (simp add: diag_def upt_rec)
  show ?thesis
    unfolding tjm_iteration_def Let_def
    by (simp only: sum.case prod.case phi argsort_example sel update_G_interleaved dg)
      blast
qed

text \<open>
  C6. The claim is that after the update of G every row of a target sample has the
  diagonal entry 1 and every row of a source sample with a nonzero norm has
  \<open>1 / (2 * norm + EPS_eigval)\<close>. The rows of K, and with them the rows of A and of
  G, are in block order, the source samples first (line 533), while the source mask is
  in the order of the input (line 530). For a fit on the samples 1 (source), 2
  (target), 3 (source) the rows are those of the samples 1, 3, 2 and the mask is
  true, false, true: the update forces 1 on row 1, the row of the source sample 3,
  whose norm is not zero, and leaves row 2, the row of the target sample, at
  \<open>1 / (2 * norm + EPS_eigval)\<close>, which is not 1. The fit runs its loop over exactly
  this pass.
\<close>

theorem tjm_fit_mask_order_interleaved:
  "\<exists>s A G' loss_total.
     tjm_fit_setup dot (Some 3) [[1], [2], [3]] [1, -1, 1] = Inr s
   \<and> su_K s = get_kernel_matrix dot [[1], [3]] [[2]]
   \<and> su_K s = [[1, 3, 2], [3, 9, 6], [2, 6, 4]]
   \<and> su_source_mask s = [True, False, True]
   \<and> (\<forall>max_iter tol.
        tjm_fit dot (\<lambda>B C. Inr ([0, 1, 2], [[1, 0, 0], [0, 1, 0], [0, 0, 1]]))
          (Some 3) (1 / 100) max_iter tol [[1], [2], [3]] [1, -1, 1]
        = (case tjm_loop
                  (tjm_iteration (\<lambda>B C. Inr ([0, 1, 2], [[1, 0, 0], [0, 1, 0], [0, 0, 1]]))
                     (su_K s) (su_M s) (su_H s) (su_n s) (1 / 100) (su_n_components s)
                     (su_source_mask s))
                  tol max_iter (su_G s) (- 2 * tol) None of
             Inl e \<Rightarrow> Inl e
           | Inr A \<Rightarrow>
               Inr \<lparr>tjm_X_source = [[1], [3]], tjm_X_target = [[2]], tjm_A = A\<rparr>))
   \<and> tjm_iteration (\<lambda>B C. Inr ([0, 1, 2], [[1, 0, 0], [0, 1, 0], [0, 0, 1]]))
        (su_K s) (su_M s) (su_H s) (su_n s) (1 / 100) (su_n_components s)
        (su_source_mask s) (su_G s) = Inr (A, G', loss_total)
   \<and> A = [[1, 0, 0], [0, 1, 0], [0, 0, 1]]
   \<and> norm2 (A ! 1) = 1 \<and> G' ! 1 ! 1 = 1
   \<and> G' ! 2 ! 2 = 1 / (2 * norm2 (A ! 2) + EPS_eigval) \<and> G' ! 2 ! 2 \<noteq> 1"
proof -
  obtain H M where s: "tjm_fit_setup dot (Some 3) [[1], [2], [3]] [1, -1, 1]
     = Inr \<lparr>su_X_source = [[1], [3]], su_X_target = [[2]], su_n_components = 3, su_n = 3,
            su_source_mask = [True, False, True], su_H = H,
            su_K = [[1, 3, 2], [3, 9, 6], [2, 6, 4]], su_M = M,
            su_G = [[1, 0, 0], [0, 1, 0], [0, 0, 1]]\<rparr>"
    using tjm_setup_interleaved by blast
  obtain l where it: "tjm_iteration (\<lambda>B C. Inr ([0, 1, 2], [[1, 0, 0], [0, 1, 0], [0, 0, 1]]))
       [[1, 3, 2], [3, 9, 6], [2, 6, 4]] M H 3 (1 / 100) 3 [True, False, True]
       [[1, 0, 0], [0, 1, 0], [0, 0, 1]]
     = Inr ([[1, 0, 0], [0, 1, 0], [0, 0, 1]],
          [[1 / (2 + 1 / 10 ^ 10), 0, 0], [0, 1, 0], [0, 0, 1 / (2 + 1 / 10 ^ 10)]], l)"
    using tjm_iteration_interleaved by blast
  show ?thesis
    apply (rule exI [where x = "\<lparr>su_X_source = [[1], [3]], su_X_target = [[2]],
            su_n_components = 3, su_n = 3,
            su_source_mask = [True, False, True], su_H = H,
            su_K = [[1, 3, 2], [3, 9, 6], [2, 6, 4]], su_M = M,
            su_G = [[1, 0, 0], [0, 1, 0], [0, 0, 1]]\<rparr>"])
    apply (rule exI [where x = "[[1, 0, 0], [0, 1, 0], [0, 0, 1]]"])
    apply (rule exI [where x = "[[1 / (2 + 1 / 10 ^ 10), 0, 0], [0, 1, 0],
            [0, 0, 1 / (2 + 1 / 10 ^ 10)]]"])
    apply (rule exI [where x = l])
    using s it kernel_interleaved
    by (simp add: tjm_fit_via_setup norm2_def EPS_eigval_def split: sum.split)
qed

subsection \<open>Adapt of Subspace Alignment\<close>

lemma merge_split_map:
  assumes "length X = length sample_domain"
  shows "source_target_merge
           (map f (fst (source_target_split X sample_domain)))
           (map g (snd (source_target_split X sample_domain))) sample_domain
         = Inr (map2 (\<lambda>x d. if 0 \<le> d then f x else g x) X sample_domain)"
  using assms
  by (induction X sample_domain rule: list_induct2)
    (simp_all add: source_target_split_def select_rows_def extract_source_indices_def)

lemma sa_adapt_blocks_rows:
  "\<exists>b1 b2. sa_adapt_blocks st \<lparr>array_rows = X_source, array_ncols = d\<rparr>
                \<lparr>array_rows = X_target, array_ncols = d\<rparr> = Inr (b1, b2)
     \<and> array_rows b1
         = map (\<lambda>x. vecmat (pca_transform_row (sa_pca_source st) x) (sa_M st)) X_source
     \<and> array_rows b2
         = map (\<lambda>x. vecmat (pca_transform_row (sa_pca_target st) x) (sa_M st)) X_target"
  by (cases X_source; cases X_target)
    (simp_all add: sa_adapt_blocks_def pca_transform_def matmul_def)

text \<open>The rows of the output of \<open>adapt\<close> are in the order of the rows of the input:
  each is its input row through the basis of its domain and then through \<open>M_\<close>.\<close>

lemma sa_adapt_rows:
  assumes "length X = length sample_domain"
  shows "sa_adapt st X sample_domain
         = Inr (map2 (\<lambda>x d. vecmat (pca_transform_row
                   (if 0 \<le> d then sa_pca_source st else sa_pca_target st) x) (sa_M st))
                 X sample_domain)"
proof -
  let ?f = "\<lambda>x. vecmat (pca_transform_row (sa_pca_source st) x) (sa_M st)"
  let ?g = "\<lambda>x. vecmat (pca_transform_row (sa_pca_target st) x) (sa_M st)"
  obtain b1 b2 where b:
    "sa_adapt_blocks st
       \<lparr>array_rows = fst (source_target_split X sample_domain), array_ncols = ncols X\<rparr>
       \<lparr>array_rows = snd (source_target_split X sample_domain), array_ncols = ncols X\<rparr>
     = Inr (b1, b2)"
    "array_rows b1 = map ?f (fst (source_target_split X sample_domain))"
    "array_rows b2 = map ?g (snd (source_target_split X sample_domain))"
    using sa_adapt_blocks_rows by blast
  have eq: "map2 (\<lambda>x d. if 0 \<le> d then ?f x else ?g x) X sample_domain
        = map2 (\<lambda>x d. vecmat (pca_transform_row
                   (if 0 \<le> d then sa_pca_source st else sa_pca_target st) x) (sa_M st))
            X sample_domain"
    by (rule arg_cong [where f = "\<lambda>h. map2 h X sample_domain"]) (intro ext, simp)
  have m: "source_target_merge (array_rows b1) (array_rows b2) sample_domain
        = Inr (map2 (\<lambda>x d. vecmat (pca_transform_row
                   (if 0 \<le> d then sa_pca_source st else sa_pca_target st) x) (sa_M st))
                 X sample_domain)"
    using merge_split_map [OF assms, of ?f ?g] unfolding b(2,3) eq .
  obtain X_source X_target
    where sp: "source_target_split X sample_domain = (X_source, X_target)"
    by (cases "source_target_split X sample_domain")
  with b(1) have "sa_adapt_blocks st \<lparr>array_rows = X_source, array_ncols = ncols X\<rparr>
       \<lparr>array_rows = X_target, array_ncols = ncols X\<rparr> = Inr (b1, b2)"
    by simp
  with assms sp show ?thesis
    unfolding sa_adapt_def check_X_domain_def by (simp add: m)
qed

lemma sa_fit_example:
  "sa_fit (\<lambda>k X. \<lparr>pca_mean = [0, 0], pca_components = take k (rev X)\<rparr>) (Some 1)
     [[-1, 0], [1, 0], [- (3 / 5), - (4 / 5)], [3 / 5, 4 / 5]] [1, 1, -1, -1]
   = Inr \<lparr>sa_pca_source = \<lparr>pca_mean = [0, 0], pca_components = [[1, 0]]\<rparr>,
          sa_pca_target = \<lparr>pca_mean = [0, 0], pca_components = [[3 / 5, 4 / 5]]\<rparr>,
          sa_n_components = 1, sa_M = [[3 / 5]]\<rparr>"
  by (simp add: sa_fit_def check_X_domain_def source_target_split_def select_rows_def
      extract_source_indices_def PCA_fit_def ncols_def matmul_def vecmat_def mT_def
      column_def dot_def)

lemma sa_adapt_target_example:
  "sa_adapt \<lparr>sa_pca_source = \<lparr>pca_mean = [0, 0], pca_components = [[1, 0]]\<rparr>,
          sa_pca_target = \<lparr>pca_mean = [0, 0], pca_components = [[3 / 5, 4 / 5]]\<rparr>,
          sa_n_components = 1, sa_M = [[3 / 5]]\<rparr> [[3 / 5, 4 / 5]] [-1] = Inr [[3 / 5]]"
  by (simp add: sa_adapt_def check_X_domain_def source_target_split_def select_rows_def
      extract_source_indices_def sa_adapt_blocks_def pca_transform_def pca_transform_row_def
      ncols_def matmul_def vecmat_def column_def dot_def)

lemma pca_transform_target_example:
  "pca_transform \<lparr>pca_mean = [0, 0], pca_components = [[3 / 5, 4 / 5]]\<rparr> [[3 / 5, 4 / 5]]
   = Inr [[1]]"
  by (simp add: pca_transform_def pca_transform_row_def dot_def)

text \<open>
  C3. The claim is that \<open>adapt\<close> maps a target row through the fitted target basis
  only, with no multiplication by M. Line 106 multiplies the transformed target block
  by \<open>M_\<close> as line 104 does the source block. For a source basis \<open>(1, 0)\<close> and a
  target basis \<open>(3/5, 4/5)\<close>, which are what a fit on the four samples below stores
  when the decomposition returns its centred rows last to first, \<open>M_\<close> is \<open>3/5\<close>;
  the target row \<open>(3/5, 4/5)\<close> has the coordinate 1 in the target basis, and
  \<open>adapt\<close> returns \<open>3/5\<close> for it.
\<close>

theorem sa_adapt_target_multiplied_by_M:
  "sa_fit (\<lambda>k X. \<lparr>pca_mean = [0, 0], pca_components = take k (rev X)\<rparr>) (Some 1)
     [[-1, 0], [1, 0], [- (3 / 5), - (4 / 5)], [3 / 5, 4 / 5]] [1, 1, -1, -1]
   = Inr \<lparr>sa_pca_source = \<lparr>pca_mean = [0, 0], pca_components = [[1, 0]]\<rparr>,
          sa_pca_target = \<lparr>pca_mean = [0, 0], pca_components = [[3 / 5, 4 / 5]]\<rparr>,
          sa_n_components = 1, sa_M = [[3 / 5]]\<rparr>
   \<and> sa_adapt \<lparr>sa_pca_source = \<lparr>pca_mean = [0, 0], pca_components = [[1, 0]]\<rparr>,
          sa_pca_target = \<lparr>pca_mean = [0, 0], pca_components = [[3 / 5, 4 / 5]]\<rparr>,
          sa_n_components = 1, sa_M = [[3 / 5]]\<rparr> [[3 / 5, 4 / 5]] [-1] = Inr [[3 / 5]]
   \<and> pca_transform \<lparr>pca_mean = [0, 0], pca_components = [[3 / 5, 4 / 5]]\<rparr>
        [[3 / 5, 4 / 5]] = Inr [[1]]
   \<and> sa_adapt \<lparr>sa_pca_source = \<lparr>pca_mean = [0, 0], pca_components = [[1, 0]]\<rparr>,
          sa_pca_target = \<lparr>pca_mean = [0, 0], pca_components = [[3 / 5, 4 / 5]]\<rparr>,
          sa_n_components = 1, sa_M = [[3 / 5]]\<rparr> [[3 / 5, 4 / 5]] [-1]
       \<noteq> pca_transform \<lparr>pca_mean = [0, 0], pca_components = [[3 / 5, 4 / 5]]\<rparr>
            [[3 / 5, 4 / 5]]"
  using sa_fit_example sa_adapt_target_example pca_transform_target_example
  by simp

lemma merge_no_source:
  assumes "length X = length sample_domain"
    and "fst (source_target_split X sample_domain) = []"
  shows "snd (source_target_split X sample_domain) = X
       \<and> source_target_merge [] (map g X) sample_domain = Inr (map g X)"
  using assms
  by (induction X sample_domain rule: list_induct2)
    (simp_all add: source_target_split_def select_rows_def extract_source_indices_def
      split: if_splits)

lemma merge_no_target:
  assumes "length X = length sample_domain"
    and "snd (source_target_split X sample_domain) = []"
  shows "fst (source_target_split X sample_domain) = X
       \<and> source_target_merge (map f X) [] sample_domain = Inr (map f X)"
  using assms
  by (induction X sample_domain rule: list_induct2)
    (simp_all add: source_target_split_def select_rows_def extract_source_indices_def
      split: if_splits)

text \<open>
  C9. When the input of \<open>adapt\<close> has no source row, the transform of the source basis,
  which refuses a block with no rows, is not applied to the source block: the block
  goes on to the merge as it is, with no rows and the columns of the input. The target
  block is transformed as always, and the merged result is the transformed target
  block. The same holds with the two blocks exchanged.
\<close>

theorem sa_adapt_empty_block:
  assumes "length X = length sample_domain"
    and "source_target_split X sample_domain = (X_source, X_target)"
  shows "(length X_source = 0 \<and> X_target \<noteq> [] \<longrightarrow>
            pca_transform (sa_pca_source st) X_source = Inl ValueError
          \<and> sa_adapt_blocks st \<lparr>array_rows = X_source, array_ncols = ncols X\<rparr>
                \<lparr>array_rows = X_target, array_ncols = ncols X\<rparr>
              = Inr (\<lparr>array_rows = [], array_ncols = ncols X\<rparr>,
                     \<lparr>array_rows = matmul (map (pca_transform_row (sa_pca_target st)) X_target)
                                     (sa_M st),
                      array_ncols = ncols (sa_M st)\<rparr>)
          \<and> pca_transform (sa_pca_target st) X_target
              = Inr (map (pca_transform_row (sa_pca_target st)) X_target)
          \<and> sa_adapt st X sample_domain
              = Inr (matmul (map (pca_transform_row (sa_pca_target st)) X_target) (sa_M st)))
       \<and> (length X_target = 0 \<and> X_source \<noteq> [] \<longrightarrow>
            pca_transform (sa_pca_target st) X_target = Inl ValueError
          \<and> sa_adapt_blocks st \<lparr>array_rows = X_source, array_ncols = ncols X\<rparr>
                \<lparr>array_rows = X_target, array_ncols = ncols X\<rparr>
              = Inr (\<lparr>array_rows = matmul (map (pca_transform_row (sa_pca_source st)) X_source)
                                     (sa_M st),
                      array_ncols = ncols (sa_M st)\<rparr>,
                     \<lparr>array_rows = [], array_ncols = ncols X\<rparr>)
          \<and> pca_transform (sa_pca_source st) X_source
              = Inr (map (pca_transform_row (sa_pca_source st)) X_source)
          \<and> sa_adapt st X sample_domain
              = Inr (matmul (map (pca_transform_row (sa_pca_source st)) X_source) (sa_M st)))"
proof (intro conjI impI)
  assume e: "length X_source = 0 \<and> X_target \<noteq> []"
  then have "fst (source_target_split X sample_domain) = []" using assms(2) by simp
  from merge_no_source [OF assms(1) this] assms(2)
  have X: "X_target = X"
    and m: "source_target_merge [] (map g X) sample_domain = Inr (map g X)" for g
    by auto
  show "pca_transform (sa_pca_source st) X_source = Inl ValueError"
    using e by (simp add: pca_transform_def)
  show t: "pca_transform (sa_pca_target st) X_target
        = Inr (map (pca_transform_row (sa_pca_target st)) X_target)"
    using e by (simp add: pca_transform_def)
  show b: "sa_adapt_blocks st \<lparr>array_rows = X_source, array_ncols = ncols X\<rparr>
                \<lparr>array_rows = X_target, array_ncols = ncols X\<rparr>
         = Inr (\<lparr>array_rows = [], array_ncols = ncols X\<rparr>,
                \<lparr>array_rows = matmul (map (pca_transform_row (sa_pca_target st)) X_target)
                                (sa_M st),
                 array_ncols = ncols (sa_M st)\<rparr>)"
    using e t by (simp add: sa_adapt_blocks_def)
  show "sa_adapt st X sample_domain
        = Inr (matmul (map (pca_transform_row (sa_pca_target st)) X_target) (sa_M st))"
    using assms b m [of "\<lambda>x. vecmat (pca_transform_row (sa_pca_target st) x) (sa_M st)"] X
    by (simp add: sa_adapt_def check_X_domain_def matmul_def comp_def)
next
  assume e: "length X_target = 0 \<and> X_source \<noteq> []"
  then have "snd (source_target_split X sample_domain) = []" using assms(2) by simp
  from merge_no_target [OF assms(1) this] assms(2)
  have X: "X_source = X"
    and m: "source_target_merge (map f X) [] sample_domain = Inr (map f X)" for f
    by auto
  show "pca_transform (sa_pca_target st) X_target = Inl ValueError"
    using e by (simp add: pca_transform_def)
  show t: "pca_transform (sa_pca_source st) X_source
        = Inr (map (pca_transform_row (sa_pca_source st)) X_source)"
    using e by (simp add: pca_transform_def)
  show b: "sa_adapt_blocks st \<lparr>array_rows = X_source, array_ncols = ncols X\<rparr>
                \<lparr>array_rows = X_target, array_ncols = ncols X\<rparr>
         = Inr (\<lparr>array_rows = matmul (map (pca_transform_row (sa_pca_source st)) X_source)
                                (sa_M st),
                 array_ncols = ncols (sa_M st)\<rparr>,
                \<lparr>array_rows = [], array_ncols = ncols X\<rparr>)"
    using e t by (simp add: sa_adapt_blocks_def)
  show "sa_adapt st X sample_domain
        = Inr (matmul (map (pca_transform_row (sa_pca_source st)) X_source) (sa_M st))"
    using assms b m [of "\<lambda>x. vecmat (pca_transform_row (sa_pca_source st) x) (sa_M st)"] X
    by (simp add: sa_adapt_def check_X_domain_def matmul_def comp_def)
qed

lemma split_example_4:
  "source_target_split [[3 / 5, 4 / 5 :: real]] [-1] = ([], [[3 / 5, 4 / 5]])"
  by (simp add: source_target_split_def select_rows_def extract_source_indices_def)

lemma split_example_5:
  "source_target_split [[1, 0 :: real]] [1] = ([[1, 0]], [])"
  by (simp add: source_target_split_def select_rows_def extract_source_indices_def)

text \<open>A target row alone, and a source row alone: the input has two columns, the
  transformed block one, and the block with no rows keeps two.\<close>

theorem sa_adapt_empty_block_witness:
  "length [[3 / 5, 4 / 5 :: real]] = length [-1 :: int]
   \<and> source_target_split [[3 / 5, 4 / 5 :: real]] [-1] = ([], [[3 / 5, 4 / 5]])
   \<and> length ([] :: matrix) = 0 \<and> [[3 / 5, 4 / 5 :: real]] \<noteq> []
   \<and> pca_transform \<lparr>pca_mean = [0, 0], pca_components = [[1, 0]]\<rparr> [] = Inl ValueError
   \<and> sa_adapt_blocks \<lparr>sa_pca_source = \<lparr>pca_mean = [0, 0], pca_components = [[1, 0]]\<rparr>,
          sa_pca_target = \<lparr>pca_mean = [0, 0], pca_components = [[3 / 5, 4 / 5]]\<rparr>,
          sa_n_components = 1, sa_M = [[3 / 5]]\<rparr>
        \<lparr>array_rows = [], array_ncols = 2\<rparr> \<lparr>array_rows = [[3 / 5, 4 / 5]], array_ncols = 2\<rparr>
       = Inr (\<lparr>array_rows = [], array_ncols = 2\<rparr>, \<lparr>array_rows = [[3 / 5]], array_ncols = 1\<rparr>)
   \<and> sa_adapt \<lparr>sa_pca_source = \<lparr>pca_mean = [0, 0], pca_components = [[1, 0]]\<rparr>,
          sa_pca_target = \<lparr>pca_mean = [0, 0], pca_components = [[3 / 5, 4 / 5]]\<rparr>,
          sa_n_components = 1, sa_M = [[3 / 5]]\<rparr> [[3 / 5, 4 / 5]] [-1] = Inr [[3 / 5]]
   \<and> length [[1, 0 :: real]] = length [1 :: int]
   \<and> source_target_split [[1, 0 :: real]] [1] = ([[1, 0]], [])
   \<and> [[1, 0 :: real]] \<noteq> []
   \<and> sa_adapt_blocks \<lparr>sa_pca_source = \<lparr>pca_mean = [0, 0], pca_components = [[1, 0]]\<rparr>,
          sa_pca_target = \<lparr>pca_mean = [0, 0], pca_components = [[3 / 5, 4 / 5]]\<rparr>,
          sa_n_components = 1, sa_M = [[3 / 5]]\<rparr>
        \<lparr>array_rows = [[1, 0]], array_ncols = 2\<rparr> \<lparr>array_rows = [], array_ncols = 2\<rparr>
       = Inr (\<lparr>array_rows = [[3 / 5]], array_ncols = 1\<rparr>, \<lparr>array_rows = [], array_ncols = 2\<rparr>)
   \<and> sa_adapt \<lparr>sa_pca_source = \<lparr>pca_mean = [0, 0], pca_components = [[1, 0]]\<rparr>,
          sa_pca_target = \<lparr>pca_mean = [0, 0], pca_components = [[3 / 5, 4 / 5]]\<rparr>,
          sa_n_components = 1, sa_M = [[3 / 5]]\<rparr> [[1, 0]] [1] = Inr [[3 / 5]]"
  using sa_adapt_empty_block [OF _ split_example_4, of "\<lparr>sa_pca_source = \<lparr>pca_mean = [0, 0], pca_components = [[1, 0]]\<rparr>,
          sa_pca_target = \<lparr>pca_mean = [0, 0], pca_components = [[3 / 5, 4 / 5]]\<rparr>,
          sa_n_components = 1, sa_M = [[3 / 5]]\<rparr>"]
    sa_adapt_empty_block [OF _ split_example_5, of "\<lparr>sa_pca_source = \<lparr>pca_mean = [0, 0], pca_components = [[1, 0]]\<rparr>,
          sa_pca_target = \<lparr>pca_mean = [0, 0], pca_components = [[3 / 5, 4 / 5]]\<rparr>,
          sa_n_components = 1, sa_M = [[3 / 5]]\<rparr>"]
    split_example_4 split_example_5
  by (simp add: pca_transform_row_def matmul_def vecmat_def ncols_def column_def dot_def
      eval_nat_numeral)

subsection \<open>The bound on the number of components\<close>

lemma set_select_rows: "set (select_rows X msk) \<subseteq> set X"
  by (auto simp: select_rows_def dest: set_zip_leftD)

lemma ncols_rect: "X \<noteq> [] \<Longrightarrow> \<forall>r\<in>set X. length r = d \<Longrightarrow> ncols X = d"
  by (cases X) (simp_all add: ncols_def)

text \<open>
  C4, as amended. For an input with source and target rows, all of \<open>d\<close> features, the
  fit of Subspace Alignment with a given number \<open>n_components\<close> raises the
  invalid-configuration error if and only if \<open>n_components\<close> exceeds the smaller of
  \<open>d\<close> and the row counts of the two blocks: the basis extraction checks each block on
  its own. One more than the bound of the combined input always raises it.
\<close>

theorem sa_fit_invalid_n_components:
  assumes "length X = length sample_domain"
    and "source_target_split X sample_domain = (X_source, X_target)"
    and "X_source \<noteq> []" and "X_target \<noteq> []"
    and "\<forall>r\<in>set X. length r = d"
  shows "(sa_fit decompose (Some k) X sample_domain = Inl InvalidParameterError
            \<longleftrightarrow> min (min (length X_source) (length X_target)) d < k)
       \<and> sa_fit decompose (Some (Suc (min (length X) d))) X sample_domain
           = Inl InvalidParameterError"
proof -
  have sub: "set X_source \<subseteq> set X" "set X_target \<subseteq> set X"
    using assms(2) set_select_rows [of X] by (auto simp: source_target_split_def)
  have cs: "ncols X_source = d" using assms(3,5) sub by (intro ncols_rect) auto
  have ct: "ncols X_target = d" using assms(4,5) sub by (intro ncols_rect) auto
  have iff: "sa_fit decompose (Some k) X sample_domain = Inl InvalidParameterError
            \<longleftrightarrow> min (min (length X_source) (length X_target)) d < k" for k
    using assms(1-4) cs ct
    by (auto simp: sa_fit_def check_X_domain_def PCA_fit_def Let_def)
  have "length X_source + length X_target = length X"
    using assms(1,2) by (rule split_lengths)
  then have "min (min (length X_source) (length X_target)) d < Suc (min (length X) d)"
    by linarith
  then have one: "sa_fit decompose (Some (Suc (min (length X) d))) X sample_domain
           = Inl InvalidParameterError"
    using iff by blast
  from iff one show ?thesis by blast
qed

lemma split_example_6:
  "source_target_split [[1, 0, 0], [0, 1, 0], [0, 0, 1 :: real]] [1, 1, -1]
   = ([[1, 0, 0], [0, 1, 0]], [[0, 0, 1]])"
  by (simp add: source_target_split_def select_rows_def extract_source_indices_def)

theorem sa_fit_invalid_n_components_witness:
  "length [[1, 0, 0], [0, 1, 0], [0, 0, 1 :: real]] = length [1, 1, -1 :: int]
   \<and> source_target_split [[1, 0, 0], [0, 1, 0], [0, 0, 1 :: real]] [1, 1, -1]
       = ([[1, 0, 0], [0, 1, 0]], [[0, 0, 1]])
   \<and> [[1, 0, 0], [0, 1, 0 :: real]] \<noteq> [] \<and> [[0, 0, 1 :: real]] \<noteq> []
   \<and> list_all (\<lambda>r. length r = 3) [[1, 0, 0], [0, 1, 0], [0, 0, 1 :: real]]
   \<and> sa_fit (\<lambda>k X. \<lparr>pca_mean = [0, 0, 0], pca_components = take k (rev X)\<rparr>) (Some 1)
        [[1, 0, 0], [0, 1, 0], [0, 0, 1]] [1, 1, -1] \<noteq> Inl InvalidParameterError
   \<and> sa_fit (\<lambda>k X. \<lparr>pca_mean = [0, 0, 0], pca_components = take k (rev X)\<rparr>) (Some 2)
        [[1, 0, 0], [0, 1, 0], [0, 0, 1]] [1, 1, -1] = Inl InvalidParameterError
   \<and> sa_fit (\<lambda>k X. \<lparr>pca_mean = [0, 0, 0], pca_components = take k (rev X)\<rparr>) (Some 4)
        [[1, 0, 0], [0, 1, 0], [0, 0, 1]] [1, 1, -1] = Inl InvalidParameterError"
  using sa_fit_invalid_n_components [OF _ split_example_6, of 3
      "\<lambda>k X. \<lparr>pca_mean = [0, 0, 0], pca_components = take k (rev X)\<rparr>" 1]
    sa_fit_invalid_n_components [OF _ split_example_6, of 3
      "\<lambda>k X. \<lparr>pca_mean = [0, 0, 0], pca_components = take k (rev X)\<rparr>" 2]
    split_example_6
  by (simp add: eval_nat_numeral)

text \<open>The claim as it stands has a fit with \<open>n_components\<close> at the bound of the
  combined input never raise: three rows of three features, two of them source rows and
  one a target row, have the bound 3, and the fit with 3 components raises.\<close>

theorem sa_fit_combined_bound_counterexample:
  "min (length [[1, 0, 0], [0, 1, 0], [0, 0, 1 :: real]])
       (ncols [[1, 0, 0], [0, 1, 0], [0, 0, 1]]) = 3
   \<and> sa_fit (\<lambda>k X. \<lparr>pca_mean = [0, 0, 0], pca_components = take k (rev X)\<rparr>) (Some 3)
        [[1, 0, 0], [0, 1, 0], [0, 0, 1]] [1, 1, -1] = Inl InvalidParameterError"
  by (simp add: sa_fit_def check_X_domain_def source_target_split_def select_rows_def
      extract_source_indices_def PCA_fit_def ncols_def)

subsection \<open>The fit of Conditional Transferable Components\<close>

lemma mapping_loop_fails: "mapping_loop i (Suc r) v = Inl NameError"
  by (cases v) (simp add: torch_minimize_def)

text \<open>
  C10. No call of \<open>ConditionalTransferableComponentsAdapter.fit\<close> returns fitted
  parameters: when the input passes the check, the call of \<open>_mapping_optimization\<close>
  leaves the parameter \<open>d\<close> unbound and raises. The routine itself, called with all
  its arguments, raises at the first pass of its loop for the undefined
  \<open>torch_minimize\<close>, or at the import when torch is not installed.
\<close>

theorem ctc_fit_always_fails:
  "(\<exists>e. ctc_fit torch_installed max_iter X y sample_domain = Inl e)
   \<and> ctc_fit torch_installed max_iter X y sample_domain
       = (if length X = length sample_domain \<and> length y = length sample_domain
          then Inl TypeError else Inl ValueError)
   \<and> mapping_optimization True (Suc r) X_source X_target y_source d = Inl NameError
   \<and> mapping_optimization False max_iter X_source X_target y_source d = Inl ImportError"
proof -
  have "ctc_fit torch_installed max_iter X y sample_domain
       = (if length X = length sample_domain \<and> length y = length sample_domain
          then Inl TypeError else Inl ValueError)"
    by (simp add: ctc_fit_def check_X_y_domain_def call_mapping_optimization_def
        split: prod.splits)
  moreover have "mapping_optimization True (Suc r) X_source X_target y_source d = Inl NameError"
    by (simp add: mapping_optimization_def Let_def mapping_loop_fails del: mapping_loop.simps)
  moreover have "mapping_optimization False max_iter X_source X_target y_source d
                 = Inl ImportError"
    by (simp add: mapping_optimization_def)
  ultimately show ?thesis by simp
qed

end
